theory Spec2Isabelle
  imports Complex_Main "HOL-Library.Word" "HOL-Library.Char_ord" "HOL-Library.List_Lexorder"
begin

unbundle bit_operations_syntax

section \<open>JavaScript numbers and conversions\<close>

text \<open>
  JavaScript numbers are modelled as exact reals (no rounding, no NaN, no infinities);
  the 32-bit integer operations of the source (\<^verbatim>\<open>>>> 0\<close>, \<^verbatim>\<open>| 0\<close>,
  \<^verbatim>\<open>Math.imul\<close>, shifts and xor) are modelled on \<open>32 word\<close>, where
  arithmetic wraps modulo \<open>2 ^ 32\<close>.
\<close>

type_synonym u32 = "32 word"

text \<open>Truncation towards zero, the first step of \<^verbatim>\<open>ToInt32\<close> and \<^verbatim>\<open>ToUint32\<close>.\<close>

definition js_trunc :: "real \<Rightarrow> int" where
  "js_trunc v = (if v < 0 then \<lceil>v\<rceil> else \<lfloor>v\<rfloor>)"

text \<open>\<^verbatim>\<open>v >>> 0\<close>\<close>

definition toUint32 :: "real \<Rightarrow> u32" where
  "toUint32 v = word_of_int (js_trunc v)"

text \<open>\<^verbatim>\<open>v | 0\<close>\<close>

definition toInt32 :: "real \<Rightarrow> int" where
  "toInt32 v = sint (toUint32 v)"

text \<open>\<^verbatim>\<open>a || d\<close> on an optional number: \<open>undefined\<close> and \<open>0\<close> are falsy.\<close>

definition orNum :: "real option \<Rightarrow> real \<Rightarrow> real" where
  "orNum a d = (case a of None \<Rightarrow> d | Some v \<Rightarrow> if v = 0 then d else v)"

text \<open>\<^verbatim>\<open>a || d\<close> on an optional string: \<open>undefined\<close> and the empty string are falsy.\<close>

definition orStr :: "string option \<Rightarrow> string \<Rightarrow> string" where
  "orStr a d = (case a of None \<Rightarrow> d | Some v \<Rightarrow> if v = [] then d else v)"

text \<open>\<^verbatim>\<open>Math.hypot(dx, dy)\<close>\<close>

definition hypot :: "real \<Rightarrow> real \<Rightarrow> real" where
  "hypot dx dy = sqrt (dx * dx + dy * dy)"

text \<open>\<^verbatim>\<open>a % b\<close> on numbers: the remainder has the sign of the dividend.\<close>

definition js_rem :: "real \<Rightarrow> real \<Rightarrow> real" where
  "js_rem a b = a - b * of_int (js_trunc (a / b))"

section \<open>SeededRandom.js\<close>

record SeededRandom =
  rng_seed :: u32
  rng_state :: u32

definition newRng :: "u32 \<Rightarrow> SeededRandom" where
  "newRng s = \<lparr>rng_seed = s, rng_state = s\<rparr>"

definition rng_reset :: "SeededRandom \<Rightarrow> SeededRandom" where
  "rng_reset r = r\<lparr>rng_state := rng_seed r\<rparr>"

definition rng_setSeed :: "u32 \<Rightarrow> SeededRandom \<Rightarrow> SeededRandom" where
  "rng_setSeed s r = r\<lparr>rng_seed := s, rng_state := s\<rparr>"

text \<open>\<^verbatim>\<open>next()\<close>: Mulberry32; returns the float in \<open>[0, 1)\<close> and the advanced generator.\<close>

definition rng_next :: "SeededRandom \<Rightarrow> real \<times> SeededRandom" where
  "rng_next r =
     (let s = rng_state r + 0x6D2B79F5;
          t1 = (s XOR drop_bit 15 s) * (s OR 1);
          t2 = t1 XOR (t1 + (t1 XOR drop_bit 7 t1) * (t1 OR 61))
      in (real (unat (t2 XOR drop_bit 14 t2)) / 4294967296, r\<lparr>rng_state := s\<rparr>))"

definition rng_range :: "real \<Rightarrow> real \<Rightarrow> SeededRandom \<Rightarrow> real \<times> SeededRandom" where
  "rng_range lo hi r = (let (u, r') = rng_next r in (lo + u * (hi - lo), r'))"

definition rng_int :: "real \<Rightarrow> real \<Rightarrow> SeededRandom \<Rightarrow> int \<times> SeededRandom" where
  "rng_int lo hi r = (let (v, r') = rng_range lo (hi + 1) r in (\<lfloor>v\<rfloor>, r'))"

definition rng_chance :: "real \<Rightarrow> SeededRandom \<Rightarrow> bool \<times> SeededRandom" where
  "rng_chance p r = (let (u, r') = rng_next r in (u < p, r'))"

text \<open>\<^verbatim>\<open>array[i]\<close>: \<open>undefined\<close> (here \<open>None\<close>) outside the array.\<close>

definition js_index :: "'a list \<Rightarrow> int \<Rightarrow> 'a option" where
  "js_index xs i = (if 0 \<le> i \<and> i < int (length xs) then Some (xs ! nat i) else None)"

text \<open>\<^verbatim>\<open>pick(array)\<close>: \<open>null\<close> on an empty array, without consuming a number.\<close>

definition rng_pick :: "'a list \<Rightarrow> SeededRandom \<Rightarrow> 'a option \<times> SeededRandom" where
  "rng_pick xs r =
     (if xs = [] then (None, r)
      else (let (i, r') = rng_int 0 (real (length xs) - 1) r in (js_index xs i, r')))"

text \<open>\<^verbatim>\<open>SeededRandom.fromString\<close>: polynomial hash, kept in 32 bits at every step.\<close>

definition fromString :: "string \<Rightarrow> u32" where
  "fromString str = foldl (\<lambda>hash c. (push_bit 5 hash - hash) + of_char c) 0 str"

section \<open>SeedUtil.js\<close>

definition mixSeed :: "u32 \<Rightarrow> u32 \<Rightarrow> u32" where
  "mixSeed sd v =
     (let x0 = sd XOR v;
          x1 = (x0 XOR drop_bit 16 x0) * 0x85ebca6b;
          x2 = (x1 XOR drop_bit 13 x1) * 0xc2b2ae35
      in x2 XOR drop_bit 16 x2)"

datatype part = PNum real | PStr string | PBool bool | PNull

fun partToU32 :: "part \<Rightarrow> u32" where
  "partToU32 (PNum n) = toUint32 n"
| "partToU32 (PStr s) = fromString s"
| "partToU32 (PBool b) = (if b then 1 else 0)"
| "partToU32 PNull = 0"

definition seedFromParts :: "part list \<Rightarrow> u32" where
  "seedFromParts parts = foldl (\<lambda>s p. mixSeed s (partToU32 p)) 0xA5A5A5A5 parts"

text \<open>A seed that is already an unsigned 32-bit value, passed as a number part.\<close>

definition u32num :: "u32 \<Rightarrow> real" where
  "u32num w = real (unat w)"

section \<open>Bullets.js: the per-drop item seed\<close>

text \<open>
  The seed expression of \<^verbatim>\<open>checkLootDrop\<close>:
  \<^verbatim>\<open>seedFromParts(State.run?.seed || (State.meta.worldSeed || 0), 'ITEM',
       (State.run.lootSerial++), (killData.x|0), (killData.y|0), depth)\<close>.
\<close>

definition itemSeed :: "real option \<Rightarrow> real option \<Rightarrow> real \<Rightarrow> real \<Rightarrow> real \<Rightarrow> real \<Rightarrow> u32" where
  "itemSeed runSeed worldSeed lootSerial kx ky depth =
     seedFromParts [PNum (orNum runSeed (orNum worldSeed 0)), PStr ''ITEM'', PNum lootSerial,
                    PNum (of_int (toInt32 kx)), PNum (of_int (toInt32 ky)), PNum depth]"

text \<open>The serial counter is read for the seed and then incremented.\<close>

record run =
  run_seed :: "real option"
  run_lootSerial :: real

definition dropItemSeed :: "run \<Rightarrow> real option \<Rightarrow> real \<Rightarrow> real \<Rightarrow> real \<Rightarrow> u32 \<times> run" where
  "dropItemSeed rn worldSeed kx ky depth =
     (itemSeed (run_seed rn) worldSeed (run_lootSerial rn) kx ky depth,
      rn\<lparr>run_lootSerial := run_lootSerial rn + 1\<rparr>)"

section \<open>Ambient randomness and errors\<close>

text \<open>
  \<^verbatim>\<open>Math.random()\<close> is the ambient source some paths fall back to. It is an explicit
  stream: the n-th call returns \<open>amb_random n\<close>.
\<close>

record ambient =
  amb_random :: "nat \<Rightarrow> real"
  amb_calls :: nat

definition Math_random :: "ambient \<Rightarrow> real \<times> ambient" where
  "Math_random a = (amb_random a (amb_calls a), a\<lparr>amb_calls := Suc (amb_calls a)\<rparr>)"

text \<open>\<^verbatim>\<open>rng ? rng.next() : Math.random()\<close>\<close>

definition nextOrRandom :: "SeededRandom option \<Rightarrow> ambient \<Rightarrow> real \<times> SeededRandom option \<times> ambient" where
  "nextOrRandom rng amb =
     (case rng of
        Some r \<Rightarrow> (let (u, r') = rng_next r in (u, Some r', amb))
      | None \<Rightarrow> (let (u, amb') = Math_random amb in (u, None, amb')))"

text \<open>A property read on \<open>undefined\<close> or \<open>null\<close> throws.\<close>

datatype error = TypeError

section \<open>DepthRules.js\<close>

record modEntry =
  mod_id :: string
  mod_weight :: "real option"

definition DEFAULT_POOL :: "modEntry list" where
  "DEFAULT_POOL =
     [\<lparr>mod_id = ''ELITE_PACKS'', mod_weight = Some 1.2\<rparr>,
      \<lparr>mod_id = ''BULLET_HELL'', mod_weight = Some 0.9\<rparr>,
      \<lparr>mod_id = ''FAST_ENEMIES'', mod_weight = Some 1.1\<rparr>,
      \<lparr>mod_id = ''CRAMPED_ZONE'', mod_weight = Some 0.8\<rparr>,
      \<lparr>mod_id = ''MINEFIELD'', mod_weight = Some 1.0\<rparr>,
      \<lparr>mod_id = ''DENSE_OBSTACLES'', mod_weight = Some 0.9\<rparr>,
      \<lparr>mod_id = ''RICH_LOOT'', mod_weight = Some 0.6\<rparr>]"

definition UNLOCK_EVERY_DEPTH :: real where
  "UNLOCK_EVERY_DEPTH = 25"

definition clamp :: "real \<Rightarrow> real \<Rightarrow> real \<Rightarrow> real" where
  "clamp v a b = max a (min b v)"

text \<open>
  \<^verbatim>\<open>State.meta.depth\<close>, absent until first use. The record's fields have their types
  by construction, so the type repairs of \<^verbatim>\<open>ensureMeta\<close> have nothing to do.
\<close>

record depthMeta =
  bestDepth :: real
  unlocked :: "string list"
  lastUnlockAt :: real

definition ensureMeta :: "depthMeta option \<Rightarrow> depthMeta" where
  "ensureMeta m =
     (case m of
        None \<Rightarrow> \<lparr>bestDepth = 1, unlocked = [], lastUnlockAt = 0\<rparr>
      | Some d \<Rightarrow> d)"

definition modifierSlots :: "real \<Rightarrow> real" where
  "modifierSlots depth =
     (if depth < 25 then 1
      else if depth < 50 then 2
      else if depth < 100 then 3
      else if depth < 200 then 4
      else 5 + of_int \<lfloor>(depth - 200) / 150\<rfloor>)"

text \<open>\<^verbatim>\<open>it.weight ?? 1\<close>\<close>

definition weightOf :: "modEntry \<Rightarrow> real" where
  "weightOf it = (case mod_weight it of None \<Rightarrow> 1 | Some w \<Rightarrow> w)"

fun weightedPickLoop :: "modEntry list \<Rightarrow> real \<Rightarrow> modEntry option" where
  "weightedPickLoop [] r = None"
| "weightedPickLoop (it # rest) r =
     (let r' = r - weightOf it in if r' \<le> 0 then Some it else weightedPickLoop rest r')"

definition weightedPick ::
  "modEntry list \<Rightarrow> SeededRandom option \<Rightarrow> ambient
     \<Rightarrow> modEntry option \<times> SeededRandom option \<times> ambient" where
  "weightedPick list rng amb =
     (let total = foldl (\<lambda>t it. t + weightOf it) 0 list;
          (u, rng', amb') = nextOrRandom rng amb;
          r = u * total
      in (case weightedPickLoop list r of
            Some it \<Rightarrow> Some it
          | None \<Rightarrow> js_index list (int (length list) - 1),
          rng', amb'))"

text \<open>The act configuration's modifier section.\<close>

record modifiersCfg =
  mods_pool :: "modEntry list option"
  mods_baseline :: "string list option"

definition poolOf :: "modifiersCfg option \<Rightarrow> modEntry list" where
  "poolOf mc =
     (case mc of
        None \<Rightarrow> DEFAULT_POOL
      | Some c \<Rightarrow> (case mods_pool c of None \<Rightarrow> DEFAULT_POOL | Some p \<Rightarrow> p))"

text \<open>
  \<^verbatim>\<open>maybeUnlock(depth, actConfig, rng)\<close>. The result is the unlocked id (or \<open>null\<close>), the
  depth record after the call, and the random sources after the call.
\<close>

definition maybeUnlock ::
  "real \<Rightarrow> modifiersCfg option \<Rightarrow> SeededRandom option \<Rightarrow> ambient \<Rightarrow> depthMeta option
     \<Rightarrow> error + (string option \<times> depthMeta \<times> SeededRandom option \<times> ambient)" where
  "maybeUnlock depth mc rng amb meta0 =
     (let meta = ensureMeta meta0;
          last = (if lastUnlockAt meta = 0 then 0 else lastUnlockAt meta)
      in if depth < UNLOCK_EVERY_DEPTH then Inr (None, meta, rng, amb)
         else
           (let milestone = of_int \<lfloor>depth / UNLOCK_EVERY_DEPTH\<rfloor> * UNLOCK_EVERY_DEPTH
            in if milestone \<le> last then Inr (None, meta, rng, amb)
               else
                 (let pool = poolOf mc;
                      candidates = filter (\<lambda>m. mod_id m \<notin> set (unlocked meta)) pool
                  in if length candidates = 0
                     then Inr (None, meta\<lparr>lastUnlockAt := milestone\<rparr>, rng, amb)
                     else
                       (case weightedPick candidates rng amb of
                          (None, rng', amb') \<Rightarrow> Inl TypeError
                        | (Some picked, rng', amb') \<Rightarrow>
                            Inr (Some (mod_id picked),
                                 meta\<lparr>unlocked := unlocked meta @ [mod_id picked],
                                      lastUnlockAt := milestone\<rparr>,
                                 rng', amb')))))"

definition recordDepth :: "real \<Rightarrow> depthMeta option \<Rightarrow> depthMeta" where
  "recordDepth depth meta0 =
     (let meta = ensureMeta meta0
      in if depth > bestDepth meta then meta\<lparr>bestDepth := depth\<rparr> else meta)"

text \<open>The slot loop of \<^verbatim>\<open>sampleActive\<close>; \<open>k\<close> is the number of slots still to fill.\<close>

fun sampleLoop ::
  "nat \<Rightarrow> modEntry list \<Rightarrow> string list \<Rightarrow> SeededRandom option \<Rightarrow> ambient
     \<Rightarrow> error + (string list \<times> SeededRandom option \<times> ambient)" where
  "sampleLoop 0 available picked rng amb = Inr (picked, rng, amb)"
| "sampleLoop (Suc k) available picked rng amb =
     (let cand = filter (\<lambda>m. mod_id m \<notin> set picked) available
      in if length cand = 0 then Inr (picked, rng, amb)
         else (case weightedPick cand rng amb of
                 (None, rng', amb') \<Rightarrow> Inl TypeError
               | (Some p, rng', amb') \<Rightarrow> sampleLoop k available (picked @ [mod_id p]) rng' amb'))"

definition sampleActive ::
  "real \<Rightarrow> modifiersCfg option \<Rightarrow> SeededRandom option \<Rightarrow> ambient \<Rightarrow> depthMeta option
     \<Rightarrow> error + (string list \<times> depthMeta \<times> SeededRandom option \<times> ambient)" where
  "sampleActive depth mc rng amb meta0 =
     (let meta = ensureMeta meta0;
          pool = poolOf mc;
          baseline = (case mc of
                        None \<Rightarrow> [''ELITE_PACKS'']
                      | Some c \<Rightarrow> (case mods_baseline c of None \<Rightarrow> [''ELITE_PACKS''] | Some b \<Rightarrow> b));
          unlockedSet = set (unlocked meta) \<union> set baseline;
          available = filter (\<lambda>m. mod_id m \<in> unlockedSet) pool
      in if length available = 0 then Inr ([], meta, rng, amb)
         else
           (let slots = clamp (modifierSlots depth) 0 8
            in (case sampleLoop (nat \<lceil>slots\<rceil>) available [] rng amb of
                  Inl e \<Rightarrow> Inl e
                | Inr (picked, rng', amb') \<Rightarrow> Inr (picked, meta, rng', amb'))))"

section \<open>SpawnGrid.js\<close>

text \<open>
  The grid stores references to spawn objects. An element of type \<open>'a\<close> is such a
  reference, and \<open>pos\<close> reads the \<open>x\<close> and \<open>y\<close> of the object it refers to. The
  cell map is keyed by the 32-bit integer that \<^verbatim>\<open>_key\<close> computes.
\<close>

record 'a SpawnGrid =
  grid_cellSize :: int
  grid_cells :: "u32 \<Rightarrow> 'a list option"

text \<open>\<^verbatim>\<open>constructor(cellSize = 500)\<close>\<close>

definition newSpawnGrid :: "real option \<Rightarrow> 'a SpawnGrid" where
  "newSpawnGrid cellSize =
     \<lparr>grid_cellSize = max 64 (toInt32 (case cellSize of None \<Rightarrow> 500 | Some c \<Rightarrow> c)),
      grid_cells = Map.empty\<rparr>"

text \<open>\<^verbatim>\<open>_key(cx, cy) { return (cx << 16) ^ (cy & 0xFFFF); }\<close>\<close>

definition grid_key :: "int \<Rightarrow> int \<Rightarrow> u32" where
  "grid_key cx cy = push_bit 16 (word_of_int cx) XOR (word_of_int cy AND 0xFFFF)"

definition cellCoord :: "'a SpawnGrid \<Rightarrow> real \<Rightarrow> real \<Rightarrow> int \<times> int" where
  "cellCoord g x y = (\<lfloor>x / of_int (grid_cellSize g)\<rfloor>, \<lfloor>y / of_int (grid_cellSize g)\<rfloor>)"

definition grid_clear :: "'a SpawnGrid \<Rightarrow> 'a SpawnGrid" where
  "grid_clear g = g\<lparr>grid_cells := Map.empty\<rparr>"

definition grid_insert :: "('a \<Rightarrow> real \<times> real) \<Rightarrow> 'a \<Rightarrow> 'a SpawnGrid \<Rightarrow> 'a SpawnGrid" where
  "grid_insert pos spawn g =
     (let (cx, cy) = cellCoord g (fst (pos spawn)) (snd (pos spawn));
          k = grid_key cx cy;
          arr = (case grid_cells g k of None \<Rightarrow> [] | Some a \<Rightarrow> a)
      in g\<lparr>grid_cells := (grid_cells g)(k \<mapsto> arr @ [spawn])\<rparr>)"

text \<open>\<^verbatim>\<open>build(spawns)\<close>: clear, then insert every entry that is not \<open>null\<close>.\<close>

fun build_loop :: "('a \<Rightarrow> real \<times> real) \<Rightarrow> 'a option list \<Rightarrow> 'a SpawnGrid \<Rightarrow> 'a SpawnGrid" where
  "build_loop pos [] g = g"
| "build_loop pos (None # rest) g = build_loop pos rest g"
| "build_loop pos (Some s # rest) g = build_loop pos rest (grid_insert pos s g)"

definition grid_build :: "('a \<Rightarrow> real \<times> real) \<Rightarrow> 'a option list \<Rightarrow> 'a SpawnGrid \<Rightarrow> 'a SpawnGrid" where
  "grid_build pos spawns g = build_loop pos spawns (grid_clear g)"

text \<open>\<^verbatim>\<open>query(x, y, r)\<close>: every entry of every cell from \<open>c0\<close> to \<open>c1\<close>, columns outermost.\<close>

definition grid_query :: "'a SpawnGrid \<Rightarrow> real \<Rightarrow> real \<Rightarrow> real \<Rightarrow> 'a list" where
  "grid_query g x y r =
     (let minX = x - r; maxX = x + r;
          minY = y - r; maxY = y + r;
          c0 = cellCoord g minX minY;
          c1 = cellCoord g maxX maxY
      in concat (map (\<lambda>cx.
           concat (map (\<lambda>cy.
             (case grid_cells g (grid_key cx cy) of None \<Rightarrow> [] | Some arr \<Rightarrow> arr))
             [snd c0 .. snd c1]))
           [fst c0 .. fst c1]))"

text \<open>
  A history of calls on one grid, and the spawns that history has put into the grid:
  \<open>build\<close> and \<open>clear\<close> forget what was there before.
\<close>

datatype 'a gridOp = Build "'a option list" | Insert 'a | Clear

fun applyOp :: "('a \<Rightarrow> real \<times> real) \<Rightarrow> 'a SpawnGrid \<Rightarrow> 'a gridOp \<Rightarrow> 'a SpawnGrid" where
  "applyOp pos g (Build spawns) = grid_build pos spawns g"
| "applyOp pos g (Insert s) = grid_insert pos s g"
| "applyOp pos g Clear = grid_clear g"

fun inserted :: "'a list \<Rightarrow> 'a gridOp \<Rightarrow> 'a list" where
  "inserted acc (Build spawns) = concat (map (\<lambda>s. case s of None \<Rightarrow> [] | Some v \<Rightarrow> [v]) spawns)"
| "inserted acc (Insert s) = acc @ [s]"
| "inserted acc Clear = []"

text \<open>A spawn is held by the grid when the cell of its own coordinates lists it.\<close>

definition grid_holds :: "('a \<Rightarrow> real \<times> real) \<Rightarrow> 'a SpawnGrid \<Rightarrow> 'a \<Rightarrow> bool" where
  "grid_holds pos g s =
     (let (cx, cy) = cellCoord g (fst (pos s)) (snd (pos s))
      in (case grid_cells g (grid_key cx cy) of None \<Rightarrow> False | Some arr \<Rightarrow> s \<in> set arr))"

section \<open>MapGenerator.js: data\<close>

record point =
  pt_x :: real
  pt_y :: real

text \<open>
  A spawn descriptor. Enemy descriptors carry all fields; elite descriptors have no patrol
  fields; the boss descriptor is created with \<open>x\<close>, \<open>y\<close> and \<open>type\<close> only, so its
  \<open>active\<close> and \<open>killed\<close> start out \<open>undefined\<close>, which the code only ever tests for
  truthiness (here \<open>False\<close>).
\<close>

record spawnDesc =
  sp_x :: real
  sp_y :: real
  sp_type :: "string option"
  sp_patrol :: "string option"
  sp_patrolRadius :: "int option"
  sp_active :: bool
  sp_killed :: bool
  sp_enemyId :: "nat option"

record obstacle =
  ob_x :: real
  ob_y :: real
  ob_type :: "string option"
  ob_radius :: int
  ob_rotation :: "real option"
  ob_destructible :: bool
  ob_hp :: "int option"
  ob_damage :: "int option"

record decoration =
  dec_x :: real
  dec_y :: real
  dec_type :: "string option"
  dec_scale :: real
  dec_rotation :: real
  dec_alpha :: real

record star =
  star_x :: real
  star_y :: real
  star_size :: real
  star_brightness :: real
  star_twinkle :: bool

record wisp =
  wisp_x :: real
  wisp_y :: real
  wisp_width :: real
  wisp_height :: real
  wisp_color :: string
  wisp_alpha :: real
  wisp_rotation :: real

record parallax =
  par_bgColor :: string
  par_bgStars :: "star list"
  par_bgScroll :: real
  par_midStars :: "star list"
  par_midScroll :: real
  par_fgObjects :: "wisp list"
  par_fgScroll :: real
  par_particleScroll :: real

record portal =
  portal_x :: real
  portal_y :: real
  portal_destination :: "string option"
  portal_type :: "string option"

record seedBundle =
  sb_zone :: u32
  sb_macro :: u32
  sb_meso :: u32
  sb_micro :: u32
  sb_mods :: u32
  sb_encounters :: u32
  sb_loot :: u32

record zone =
  z_seed :: u32
  z_width :: real
  z_height :: real
  z_biome :: "string option"
  z_isBossZone :: bool
  z_spawn :: point
  z_exit :: "point option"
  z_enemySpawns :: "spawnDesc list"
  z_eliteSpawns :: "spawnDesc list"
  z_bossSpawn :: "spawnDesc option"
  z_obstacles :: "obstacle list"
  z_decorations :: "decoration list"
  z_parallax :: parallax
  z_pickups :: "point list"
  z_portals :: "portal list"
  z_depth :: "real option"
  z_mods :: "string list option"
  z_layout :: "string option"
  z_backdrop :: "string option"
  z_signature :: "string option"
  z_seeds :: "seedBundle option"

text \<open>
  The act configuration: every field is optional, a field of another type than the code
  tests for counts as absent. A width or height is an array or a number.
\<close>

datatype rangeSpec = RangeArr "real list" | RangeNum real

record genCfg =
  gen_enemyDensity :: "real option"
  gen_eliteDensity :: "real option"
  gen_obstacleDensity :: "real option"
  gen_width :: "rangeSpec option"
  gen_height :: "rangeSpec option"

record enemiesCfg =
  en_pool :: "string list option"
  en_elitePool :: "string list option"

record bossCfg =
  boss_arenaWidth :: "real option"
  boss_arenaHeight :: "real option"
  boss_type :: "string option"

record nebulaCfg =
  neb_enabled :: bool
  neb_count :: "real option"
  neb_color :: "string option"

record parallaxCfg =
  pcfg_bgColor :: "string option"
  pcfg_nebula :: "nebulaCfg option"

record actConfig =
  act_generation :: "genCfg option"
  act_biome :: "string option"
  act_enemies :: "enemiesCfg option"
  act_boss :: "bossCfg option"
  act_parallax :: "parallaxCfg option"
  act_modifiers :: "modifiersCfg option"
  act_zones :: "real option"
  act_id :: "string option"
  act_seed :: "u32 option"

record genOptions =
  opt_depth :: "real option"
  opt_mods :: "string list option"
  opt_seeds :: "seedBundle option"
  opt_layout :: "string option"
  opt_backdrop :: "string option"

section \<open>MapGenerator.js: placement\<close>

text \<open>
  \<^verbatim>\<open>for (let i = 0; i < count; i++) out.push(body(i))\<close>, the first argument being the number
  of iterations still to run.
\<close>

fun repeatPush ::
  "nat \<Rightarrow> (nat \<Rightarrow> SeededRandom \<Rightarrow> 'a \<times> SeededRandom) \<Rightarrow> nat \<Rightarrow> 'a list \<Rightarrow> SeededRandom
     \<Rightarrow> 'a list \<times> SeededRandom" where
  "repeatPush 0 body i out r = (out, r)"
| "repeatPush (Suc k) body i out r =
     (let (v, r') = body i r in repeatPush k body (Suc i) (out @ [v]) r')"

definition generateSpawnPoint :: "SeededRandom \<Rightarrow> real \<Rightarrow> real \<Rightarrow> point \<times> SeededRandom" where
  "generateSpawnPoint rng w h =
     (let (edge, r1) = rng_pick [''bottom'', ''left'', ''right''] rng;
          margin = 100
      in if edge = Some ''bottom''
         then (let (x, r2) = rng_range margin (w - margin) r1 in (\<lparr>pt_x = x, pt_y = h - margin\<rparr>, r2))
         else if edge = Some ''left''
         then (let (y, r2) = rng_range margin (h - margin) r1 in (\<lparr>pt_x = margin, pt_y = y\<rparr>, r2))
         else if edge = Some ''right''
         then (let (y, r2) = rng_range margin (h - margin) r1 in (\<lparr>pt_x = w - margin, pt_y = y\<rparr>, r2))
         else (\<lparr>pt_x = w / 2, pt_y = h - margin\<rparr>, r1))"

definition generateExitPoint :: "SeededRandom \<Rightarrow> point \<Rightarrow> real \<Rightarrow> real \<Rightarrow> point \<times> SeededRandom" where
  "generateExitPoint rng spawn w h =
     (let margin = 100
      in if pt_y spawn > h / 2
         then (let (x, r1) = rng_range margin (w - margin) rng in (\<lparr>pt_x = x, pt_y = margin\<rparr>, r1))
         else if pt_x spawn < w / 2
         then (let (y, r1) = rng_range margin (h - margin) rng in (\<lparr>pt_x = w - margin, pt_y = y\<rparr>, r1))
         else (let (y, r1) = rng_range margin (h - margin) rng in (\<lparr>pt_x = margin, pt_y = y\<rparr>, r1)))"

text \<open>Minimum separation between enemy spawns, by layout.\<close>

definition minDistBetween :: "string \<Rightarrow> real" where
  "minDistBetween layout =
     (let d0 = 150;
          d1 = (if layout = ''CLUTTERED'' then 120 else d0);
          d2 = (if layout = ''OPEN'' then 165 else d1);
          d3 = (if layout = ''CORRIDOR'' then 140 else d2)
      in if layout = ''CRAMPED'' then 115 else d3)"

text \<open>
  One iteration of the rejection loop of \<^verbatim>\<open>generateEnemySpawns\<close>: draw a candidate,
  reject it (\<open>None\<close>, the \<^verbatim>\<open>continue\<close> branches) or build its descriptor.
\<close>

definition enemyCandidate ::
  "string list \<Rightarrow> real \<Rightarrow> real \<Rightarrow> point \<Rightarrow> point \<Rightarrow> string \<Rightarrow> spawnDesc list \<Rightarrow> SeededRandom
     \<Rightarrow> spawnDesc option \<times> SeededRandom" where
  "enemyCandidate pool w h spawn exit layout spawns rng =
     (let (x0, r1) = rng_range 100 (w - 100) rng;
          (y, r2) = rng_range 100 (h - 100) r1;
          (x, r3) = (if layout = ''CORRIDOR''
                     then (let (c, ra) = rng_chance 0.7 r2
                           in if c then rng_range (w * 0.35) (w * 0.65) ra else (x0, ra))
                     else (x0, r2));
          distSpawn = hypot (x - pt_x spawn) (y - pt_y spawn);
          distExit = hypot (x - pt_x exit) (y - pt_y exit)
      in if distSpawn < 300 then (None, r3)
         else if distExit < 200 then (None, r3)
         else if list_ex (\<lambda>s. hypot (x - sp_x s) (y - sp_y s) < minDistBetween layout) spawns
         then (None, r3)
         else (let (ty, r4) = rng_pick pool r3;
                   (patrol, r5) = rng_pick [''static'', ''circle'', ''line'', ''wander''] r4;
                   (pr, r6) = rng_int 50 150 r5
               in (Some \<lparr>sp_x = x, sp_y = y, sp_type = ty, sp_patrol = patrol,
                         sp_patrolRadius = Some pr, sp_active = False, sp_killed = False,
                         sp_enemyId = None\<rparr>, r6)))"

text \<open>
  \<^verbatim>\<open>for (let i = 0; i < count * 3 && spawns.length < count; i++)\<close>. The loop also
  returns the final value of \<open>i\<close>, the number of candidates drawn.
\<close>

function enemyLoop ::
  "int \<Rightarrow> string list \<Rightarrow> real \<Rightarrow> real \<Rightarrow> point \<Rightarrow> point \<Rightarrow> string \<Rightarrow> nat \<Rightarrow> spawnDesc list
     \<Rightarrow> SeededRandom \<Rightarrow> spawnDesc list \<times> SeededRandom \<times> nat" where
  "enemyLoop count pool w h spawn exit layout i spawns rng =
     (if int i < count * 3 \<and> int (length spawns) < count
      then (let (cand, rng') = enemyCandidate pool w h spawn exit layout spawns rng
            in enemyLoop count pool w h spawn exit layout (Suc i)
                 (case cand of None \<Rightarrow> spawns | Some s \<Rightarrow> spawns @ [s]) rng')
      else (spawns, rng, i))"
  by pat_completeness auto
termination
  by (relation "measure (\<lambda>(count, pool, w, h, spawn, exit, layout, i, spawns, rng). nat (count * 3 - int i))")
     auto

definition generateEnemySpawnsCounted ::
  "SeededRandom \<Rightarrow> string list \<Rightarrow> real \<Rightarrow> real \<Rightarrow> real \<Rightarrow> point \<Rightarrow> point \<Rightarrow> string option
     \<Rightarrow> spawnDesc list \<times> SeededRandom \<times> nat" where
  "generateEnemySpawnsCounted rng pool density w h spawn exit layoutOpt =
     (let count = \<lfloor>w * h * density\<rfloor>;
          layout = orStr layoutOpt ''OPEN''
      in enemyLoop count pool w h spawn exit layout 0 [] rng)"

definition generateEnemySpawns ::
  "SeededRandom \<Rightarrow> string list \<Rightarrow> real \<Rightarrow> real \<Rightarrow> real \<Rightarrow> point \<Rightarrow> point \<Rightarrow> string option
     \<Rightarrow> spawnDesc list \<times> SeededRandom" where
  "generateEnemySpawns rng pool density w h spawn exit layoutOpt =
     (let (spawns, rng', attempts) = generateEnemySpawnsCounted rng pool density w h spawn exit layoutOpt
      in (spawns, rng'))"

definition eliteBody :: "string list \<Rightarrow> real \<Rightarrow> real \<Rightarrow> nat \<Rightarrow> SeededRandom \<Rightarrow> spawnDesc \<times> SeededRandom" where
  "eliteBody pool w h i rng =
     (let (x, r1) = rng_range 200 (w - 200) rng;
          (y, r2) = rng_range 200 (h - 200) r1;
          (ty, r3) = rng_pick pool r2
      in (\<lparr>sp_x = x, sp_y = y, sp_type = ty, sp_patrol = None, sp_patrolRadius = None,
           sp_active = False, sp_killed = False, sp_enemyId = None\<rparr>, r3))"

definition generateEliteSpawns ::
  "SeededRandom \<Rightarrow> string list \<Rightarrow> real \<Rightarrow> real \<Rightarrow> real \<Rightarrow> spawnDesc list \<times> SeededRandom" where
  "generateEliteSpawns rng pool density w h =
     (let count = max 1 \<lfloor>w * h * density\<rfloor>
      in repeatPush (nat count) (eliteBody pool w h) 0 [] rng)"

definition obstacleBody ::
  "real \<Rightarrow> string list \<Rightarrow> string \<Rightarrow> real \<Rightarrow> real \<Rightarrow> nat \<Rightarrow> SeededRandom \<Rightarrow> obstacle \<times> SeededRandom" where
  "obstacleBody depth mods layout w h i rng =
     (let typePool = (if ''MINEFIELD'' \<in> set mods
                      then [''asteroid'', ''debris'', ''mine'', ''mine'']
                      else [''asteroid'', ''debris'']);
          (ty, r1) = rng_pick typePool rng;
          (x, r2) = (if layout = ''CORRIDOR''
                     then (let (c, ra) = rng_chance 0.6 r1
                           in if c
                              then (let (side, rb) = rng_chance 0.5 ra
                                    in if side then rng_range 100 (w * 0.25) rb
                                       else rng_range (w * 0.75) (w - 100) rb)
                              else rng_range 100 (w - 100) ra)
                     else rng_range 100 (w - 100) r1);
          (y, r3) = rng_range 100 (h - 100) r2;
          (radius, r4) = (if ty = Some ''asteroid'' then rng_int 30 80 r3 else rng_int 15 30 r3);
          (rotation, r5) = rng_range 0 (pi * 2) r4;
          (hp, r6) = (if ty = Some ''asteroid'' then rng_int 25 60 r5
                      else (if ty = Some ''mine'' then 6 else 12, r5))
      in (\<lparr>ob_x = x, ob_y = y, ob_type = ty, ob_radius = radius, ob_rotation = Some rotation,
           ob_destructible = True, ob_hp = Some hp,
           ob_damage = Some (if ty = Some ''mine'' then 8 + \<lfloor>depth * 0.25\<rfloor> else 0)\<rparr>, r6))"

definition generateObstacles ::
  "SeededRandom \<Rightarrow> real \<Rightarrow> real \<Rightarrow> real \<Rightarrow> real option \<Rightarrow> string list option \<Rightarrow> string option
     \<Rightarrow> obstacle list \<times> SeededRandom" where
  "generateObstacles rng density w h depthOpt modsOpt layoutOpt =
     (let depth = orNum depthOpt 1;
          mods = (case modsOpt of None \<Rightarrow> [] | Some m \<Rightarrow> m);
          layout = orStr layoutOpt ''OPEN'';
          count = \<lfloor>w * h * density\<rfloor>
      in repeatPush (nat count) (obstacleBody depth mods layout w h) 0 [] rng)"

definition pillarBody :: "int \<Rightarrow> real \<Rightarrow> real \<Rightarrow> nat \<Rightarrow> SeededRandom \<Rightarrow> obstacle \<times> SeededRandom" where
  "pillarBody pillarCount w h i rng =
     (let angle = (real i / of_int pillarCount) * pi * 2;
          (dist, r1) = rng_range 200 350 rng
      in (\<lparr>ob_x = w / 2 + cos angle * dist, ob_y = h / 2 + sin angle * dist,
           ob_type = Some ''pillar'', ob_radius = 40, ob_rotation = None,
           ob_destructible = False, ob_hp = None, ob_damage = None\<rparr>, r1))"

definition generateBossArenaObstacles ::
  "SeededRandom \<Rightarrow> real \<Rightarrow> real \<Rightarrow> obstacle list \<times> SeededRandom" where
  "generateBossArenaObstacles rng w h =
     (let (pillarCount, r1) = rng_int 2 4 rng
      in repeatPush (nat pillarCount) (pillarBody pillarCount w h) 0 [] r1)"

definition decorationTypes :: "string option \<Rightarrow> string list" where
  "decorationTypes biome =
     (if biome = Some ''space'' then [''star_cluster'', ''nebula_wisp'', ''dust_cloud'']
      else if biome = Some ''asteroid'' then [''rock_small'', ''crystal'', ''ice_chunk'']
      else if biome = Some ''station'' then [''debris'', ''panel'', ''wire'']
      else [''star_cluster'', ''nebula_wisp'', ''dust_cloud''])"

definition decorationBody ::
  "string list \<Rightarrow> real \<Rightarrow> real \<Rightarrow> nat \<Rightarrow> SeededRandom \<Rightarrow> decoration \<times> SeededRandom" where
  "decorationBody pool w h i rng =
     (let (x, r1) = rng_range 0 w rng;
          (y, r2) = rng_range 0 h r1;
          (ty, r3) = rng_pick pool r2;
          (sc, r4) = rng_range 0.5 1.5 r3;
          (rot, r5) = rng_range 0 (pi * 2) r4;
          (al, r6) = rng_range 0.3 0.7 r5
      in (\<lparr>dec_x = x, dec_y = y, dec_type = ty, dec_scale = sc, dec_rotation = rot,
           dec_alpha = al\<rparr>, r6))"

definition generateDecorations ::
  "SeededRandom \<Rightarrow> string option \<Rightarrow> real \<Rightarrow> real \<Rightarrow> decoration list \<times> SeededRandom" where
  "generateDecorations rng biome w h =
     (let count = \<lfloor>w * h * 0.001\<rfloor>;
          pool = decorationTypes biome
      in repeatPush (nat count) (decorationBody pool w h) 0 [] rng)"

definition starBody :: "real \<Rightarrow> real \<Rightarrow> nat \<Rightarrow> SeededRandom \<Rightarrow> star \<times> SeededRandom" where
  "starBody w h i rng =
     (let (x, r1) = rng_range 0 w rng;
          (y, r2) = rng_range 0 h r1;
          (sz, r3) = rng_range 0.5 2 r2;
          (br, r4) = rng_range 0.3 1 r3;
          (tw, r5) = rng_chance 0.3 r4
      in (\<lparr>star_x = x, star_y = y, star_size = sz, star_brightness = br, star_twinkle = tw\<rparr>, r5))"

definition generateStarfield ::
  "SeededRandom \<Rightarrow> real \<Rightarrow> real \<Rightarrow> real \<Rightarrow> star list \<times> SeededRandom" where
  "generateStarfield rng w h density =
     (let count = \<lfloor>w * h * density\<rfloor>
      in repeatPush (nat count) (starBody w h) 0 [] rng)"

definition wispBody :: "string \<Rightarrow> real \<Rightarrow> real \<Rightarrow> nat \<Rightarrow> SeededRandom \<Rightarrow> wisp \<times> SeededRandom" where
  "wispBody color w h i rng =
     (let (x, r1) = rng_range 0 w rng;
          (y, r2) = rng_range 0 h r1;
          (wd, r3) = rng_range 200 500 r2;
          (ht, r4) = rng_range 100 300 r3;
          (al, r5) = rng_range 0.05 0.15 r4;
          (rot, r6) = rng_range 0 (pi * 2) r5
      in (\<lparr>wisp_x = x, wisp_y = y, wisp_width = wd, wisp_height = ht, wisp_color = color,
           wisp_alpha = al, wisp_rotation = rot\<rparr>, r6))"

text \<open>
  \<^verbatim>\<open>generateNebulaWisps\<close>; the configuration it receives is the act's nebula section with
  its colour replaced by \<open>color\<close>. A count that is not a whole number runs the loop
  once more than its integer part.
\<close>

definition generateNebulaWisps ::
  "SeededRandom \<Rightarrow> real \<Rightarrow> real \<Rightarrow> nebulaCfg option \<Rightarrow> string \<Rightarrow> wisp list \<times> SeededRandom" where
  "generateNebulaWisps rng w h nebula color0 =
     (case nebula of
        None \<Rightarrow> ([], rng)
      | Some nc \<Rightarrow>
          if \<not> neb_enabled nc then ([], rng)
          else
            (let (count, r1) = (case neb_count nc of
                                  None \<Rightarrow> (let (n, ra) = rng_int 3 8 rng in (of_int n, ra))
                                | Some c \<Rightarrow> if c = 0 then (let (n, ra) = rng_int 3 8 rng in (of_int n, ra))
                                            else (c, rng));
                 color = (if color0 = [] then ''#4400aa'' else color0)
             in repeatPush (nat \<lceil>count\<rceil>) (wispBody color w h) 0 [] r1))"

definition palette :: "string \<Rightarrow> string \<times> string" where
  "palette variant =
     (if variant = ''A'' then (''#0a0a15'', ''#4400aa'')
      else if variant = ''B'' then (''#050a1a'', ''#0044aa'')
      else if variant = ''C'' then (''#0b0515'', ''#aa0044'')
      else if variant = ''D'' then (''#050515'', ''#00aa88'')
      else (''#0a0a15'', ''#4400aa''))"

definition generateParallax ::
  "SeededRandom \<Rightarrow> actConfig \<Rightarrow> real \<Rightarrow> real \<Rightarrow> string \<Rightarrow> parallax \<times> SeededRandom" where
  "generateParallax rng actConfig w h variant =
     (let cfg = act_parallax actConfig;
          (pbg, pnebula) = palette variant;
          nebula = (case cfg of None \<Rightarrow> None | Some c \<Rightarrow> pcfg_nebula c);
          (bgStars, r1) = generateStarfield rng (w * 1.5) (h * 1.5) 0.0003;
          (midStars, r2) = generateStarfield r1 (w * 1.3) (h * 1.3) 0.0002;
          nebColor = orStr (case nebula of None \<Rightarrow> None | Some n \<Rightarrow> neb_color n) pnebula;
          (objects, r3) = generateNebulaWisps r2 w h nebula nebColor
      in (\<lparr>par_bgColor = orStr (case cfg of None \<Rightarrow> None | Some c \<Rightarrow> pcfg_bgColor c) pbg,
           par_bgStars = bgStars, par_bgScroll = 0.1,
           par_midStars = midStars, par_midScroll = 0.3,
           par_fgObjects = objects, par_fgScroll = 0.6,
           par_particleScroll = 0.9\<rparr>, r3))"

section \<open>MapGenerator.js: zones\<close>

definition pickRange :: "rangeSpec option \<Rightarrow> real \<Rightarrow> real \<Rightarrow> SeededRandom \<Rightarrow> real \<times> SeededRandom" where
  "pickRange v fallbackMin fallbackMax rngMeso =
     (case v of
        Some (RangeArr xs) \<Rightarrow>
          if length xs \<ge> 2 then (let (n, r') = rng_int (xs ! 0) (xs ! 1) rngMeso in (of_int n, r'))
          else (let (n, r') = rng_int fallbackMin fallbackMax rngMeso in (of_int n, r'))
      | Some (RangeNum n) \<Rightarrow> (n, rngMeso)
      | None \<Rightarrow> (let (n, r') = rng_int fallbackMin fallbackMax rngMeso in (of_int n, r')))"

text \<open>Base densities scaled by the depth ramps: enemy, elite, obstacle.\<close>

definition depthDensities :: "genCfg option \<Rightarrow> real \<Rightarrow> real \<times> real \<times> real" where
  "depthDensities cfg depth =
     (let depthEnemyMult = 1 + min (depth * 0.012) 1.6;
          depthEliteMult = 1 + min (depth * 0.010) 1.2;
          depthObsMult = 1 + min (depth * 0.008) 1.0;
          field = (\<lambda>f. case cfg of None \<Rightarrow> None | Some c \<Rightarrow> f c)
      in (orNum (field gen_enemyDensity) 0.0005 * depthEnemyMult,
          orNum (field gen_eliteDensity) 0.00008 * depthEliteMult,
          orNum (field gen_obstacleDensity) 0.0002 * depthObsMult))"

text \<open>Modifier effects on the three densities, in the order of the source.\<close>

definition modDensities :: "string list \<Rightarrow> real \<times> real \<times> real \<Rightarrow> real \<times> real \<times> real" where
  "modDensities mods d =
     (let (enemy0, elite0, obs0) = d;
          enemy1 = (if ''BULLET_HELL'' \<in> set mods then enemy0 * 1.35 else enemy0);
          elite1 = (if ''ELITE_PACKS'' \<in> set mods then elite0 * 1.55 else elite0);
          enemy2 = (if ''FAST_ENEMIES'' \<in> set mods then enemy1 * 1.10 else enemy1);
          obs1 = (if ''DENSE_OBSTACLES'' \<in> set mods then obs0 * 1.35 else obs0);
          obs2 = (if ''MINEFIELD'' \<in> set mods then obs1 * 1.15 else obs1)
      in (enemy2, elite1, obs2))"

text \<open>The layout switch: width, height, then enemy, elite and obstacle density.\<close>

definition layoutTemplate ::
  "string \<Rightarrow> real \<times> real \<times> real \<times> real \<times> real \<Rightarrow> real \<times> real \<times> real \<times> real \<times> real" where
  "layoutTemplate layout v =
     (let (width, height, enemy, elite, obs) = v
      in if layout = ''CORRIDOR''
         then (of_int \<lfloor>width * 0.75\<rfloor>, of_int \<lfloor>height * 1.25\<rfloor>, enemy * 1.05, elite, obs * 0.85)
         else if layout = ''ARENA''
         then (of_int \<lfloor>width * 1.15\<rfloor>, of_int \<lfloor>height * 0.9\<rfloor>, enemy, elite, obs * 0.9)
         else if layout = ''CLUTTERED''
         then (width, height, enemy, elite, obs * 1.55)
         else if layout = ''CRAMPED''
         then (of_int \<lfloor>width * 0.78\<rfloor>, of_int \<lfloor>height * 0.78\<rfloor>, enemy * 1.1, elite * 1.05, obs * 1.6)
         else (width, height, enemy, elite, obs * 0.9))"

text \<open>
  The parameters \<^verbatim>\<open>generate\<close> settles before it places anything: final width and
  height, the three capped densities, and the meso stream after the two dimension draws.
\<close>

definition genParams ::
  "actConfig \<Rightarrow> real \<Rightarrow> string list \<Rightarrow> string \<Rightarrow> SeededRandom
     \<Rightarrow> (real \<times> real \<times> real \<times> real \<times> real) \<times> SeededRandom" where
  "genParams actConfig depth mods layout rngMeso =
     (let cfg = act_generation actConfig;
          (enemy1, elite1, obs1) = modDensities mods (depthDensities cfg depth);
          crampedMult = (if ''CRAMPED_ZONE'' \<in> set mods then 0.85 else 1.0);
          (width0, m1) = pickRange (case cfg of None \<Rightarrow> None | Some c \<Rightarrow> gen_width c) 1500 3000 rngMeso;
          (height0, m2) = pickRange (case cfg of None \<Rightarrow> None | Some c \<Rightarrow> gen_height c) 1500 3000 m1;
          (width1, height1, enemy2, elite2, obs2) =
             layoutTemplate layout (width0, height0, enemy1, elite1, obs1);
          enemyDensity = min enemy2 0.0012;
          eliteDensity = min elite2 0.00025;
          obstacleDensity = min obs2 0.0008;
          width = (if crampedMult \<noteq> 1.0 then of_int \<lfloor>width1 * crampedMult\<rfloor> else width1);
          height = (if crampedMult \<noteq> 1.0 then of_int \<lfloor>height1 * crampedMult\<rfloor> else height1)
      in ((width, height, enemyDensity, eliteDensity, obstacleDensity), m2))"

definition streamSeed :: "genOptions \<Rightarrow> (seedBundle \<Rightarrow> u32) \<Rightarrow> u32 \<Rightarrow> u32" where
  "streamSeed options f zoneSeed = (case opt_seeds options of None \<Rightarrow> zoneSeed | Some b \<Rightarrow> f b)"

definition generate :: "actConfig \<Rightarrow> u32 \<Rightarrow> genOptions \<Rightarrow> zone" where
  "generate actConfig zoneSeed options =
     (let layout = orStr (opt_layout options) ''OPEN'';
          backdrop = orStr (opt_backdrop options) ''A'';
          rngMacro = newRng (streamSeed options sb_macro zoneSeed);
          rngMeso = newRng (streamSeed options sb_meso zoneSeed);
          rngMicro = newRng (streamSeed options sb_micro zoneSeed);
          depth = orNum (opt_depth options) 1;
          mods = (case opt_mods options of None \<Rightarrow> [] | Some m \<Rightarrow> m);
          ((width, height, enemyDensity, eliteDensity, obstacleDensity), meso1) =
             genParams actConfig depth mods layout rngMeso;
          (spawn, meso2) = generateSpawnPoint meso1 width height;
          (par, macro1) = generateParallax rngMacro actConfig width height backdrop;
          (exit, meso3) = generateExitPoint meso2 spawn width height;
          enemies = act_enemies actConfig;
          (enemySpawns, micro1) =
             generateEnemySpawns rngMicro
               (case (case enemies of None \<Rightarrow> None | Some e \<Rightarrow> en_pool e) of
                  None \<Rightarrow> [''grunt''] | Some p \<Rightarrow> p)
               enemyDensity width height spawn exit (Some layout);
          (eliteSpawns, micro2) =
             generateEliteSpawns micro1
               (case (case enemies of None \<Rightarrow> None | Some e \<Rightarrow> en_elitePool e) of
                  None \<Rightarrow> [''commander''] | Some p \<Rightarrow> p)
               eliteDensity width height;
          (obstacles, meso4) =
             generateObstacles meso3 obstacleDensity width height (Some depth) (Some mods) (Some layout);
          (decorations, micro3) = generateDecorations micro2 (act_biome actConfig) width height
      in \<lparr>z_seed = zoneSeed, z_width = width, z_height = height,
          z_biome = Some (orStr (act_biome actConfig) ''space''), z_isBossZone = False,
          z_spawn = spawn, z_exit = Some exit,
          z_enemySpawns = enemySpawns, z_eliteSpawns = eliteSpawns, z_bossSpawn = None,
          z_obstacles = obstacles, z_decorations = decorations, z_parallax = par,
          z_pickups = [], z_portals = [],
          z_depth = None, z_mods = None, z_layout = None, z_backdrop = None,
          z_signature = None, z_seeds = None\<rparr>)"

definition generateBossZone :: "actConfig \<Rightarrow> u32 \<Rightarrow> genOptions \<Rightarrow> zone" where
  "generateBossZone actConfig zoneSeed options =
     (let backdrop = orStr (opt_backdrop options) ''A'';
          rng = newRng (streamSeed options sb_meso zoneSeed);
          rngMacro = newRng (streamSeed options sb_macro zoneSeed);
          cfg = act_boss actConfig;
          width = orNum (case cfg of None \<Rightarrow> None | Some c \<Rightarrow> boss_arenaWidth c) 1200;
          height = orNum (case cfg of None \<Rightarrow> None | Some c \<Rightarrow> boss_arenaHeight c) 1000;
          (obstacles, rng1) = generateBossArenaObstacles rng width height;
          (par, macro1) = generateParallax rngMacro actConfig width height backdrop
      in \<lparr>z_seed = zoneSeed, z_width = width, z_height = height,
          z_biome = act_biome actConfig, z_isBossZone = True,
          z_spawn = \<lparr>pt_x = width / 2, pt_y = height - 100\<rparr>, z_exit = None,
          z_enemySpawns = [], z_eliteSpawns = [],
          z_bossSpawn = Some \<lparr>sp_x = width / 2, sp_y = 200,
                                sp_type = Some (orStr (case cfg of None \<Rightarrow> None | Some c \<Rightarrow> boss_type c) ''sentinel''),
                                sp_patrol = None, sp_patrolRadius = None,
                                sp_active = False, sp_killed = False, sp_enemyId = None\<rparr>,
          z_obstacles = obstacles, z_decorations = [], z_parallax = par,
          z_pickups = [], z_portals = [],
          z_depth = None, z_mods = None, z_layout = None, z_backdrop = None,
          z_signature = None, z_seeds = None\<rparr>)"

definition createZoneSeed :: "u32 \<Rightarrow> int \<Rightarrow> u32" where
  "createZoneSeed actSeed zoneIndex =
     (let a = actSeed;
          z = (word_of_int (zoneIndex + 1) :: u32)
      in a XOR (z * 0x9E3779B9))"

section \<open>Placement properties\<close>

text \<open>An accepted enemy spawn keeps its distance from the zone spawn point and the exit.\<close>

definition clearOf :: "point \<Rightarrow> point \<Rightarrow> spawnDesc \<Rightarrow> bool" where
  "clearOf spawn exit s \<longleftrightarrow>
     300 \<le> hypot (sp_x s - pt_x spawn) (sp_y s - pt_y spawn)
     \<and> 200 \<le> hypot (sp_x s - pt_x exit) (sp_y s - pt_y exit)"

text \<open>A later spawn keeps the minimum separation \<open>d\<close> from an earlier one.\<close>

definition apart :: "real \<Rightarrow> spawnDesc \<Rightarrow> spawnDesc \<Rightarrow> bool" where
  "apart d earlier later \<longleftrightarrow> d \<le> hypot (sp_x later - sp_x earlier) (sp_y later - sp_y earlier)"






section \<open>Freshness.js\<close>

record Freshness =
  fr_window :: real
  fr_recent :: "string list"

record freshnessCfg =
  fc_window :: "real option"
  fc_penaltyBase :: "real option"

text \<open>\<^verbatim>\<open>ensure(meta, cfg)\<close>: the freshness record of \<^verbatim>\<open>meta\<close> after the call.\<close>

definition fresh_ensure :: "Freshness option \<Rightarrow> freshnessCfg option \<Rightarrow> Freshness" where
  "fresh_ensure f0 cfg =
     (let f = (case f0 of None \<Rightarrow> \<lparr>fr_window = 8, fr_recent = []\<rparr> | Some v \<Rightarrow> v);
          window = (case (case cfg of None \<Rightarrow> None | Some c \<Rightarrow> fc_window c) of
                      Some w \<Rightarrow> w
                    | None \<Rightarrow> fr_window f);
          win = max 1 (min 64 (toInt32 window));
          recent = fr_recent f
      in \<lparr>fr_window = of_int win,
          fr_recent = (if int (length recent) > win
                       then drop (length recent - nat win) recent else recent)\<rparr>)"

definition fresh_count :: "Freshness option \<Rightarrow> string \<Rightarrow> int" where
  "fresh_count f key =
     (case f of None \<Rightarrow> 0 | Some v \<Rightarrow> int (length (filter (\<lambda>k. k = key) (fr_recent v))))"

definition applyPenalty :: "real \<Rightarrow> int \<Rightarrow> real option \<Rightarrow> real" where
  "applyPenalty weight countRecent penaltyBase =
     (let base = (case penaltyBase of
                    Some p \<Rightarrow> if p > 0 \<and> p < 1 then p else 0.25
                  | None \<Rightarrow> 0.25)
      in weight * base ^ nat (max 0 countRecent))"

definition fresh_push :: "Freshness option \<Rightarrow> string \<Rightarrow> Freshness" where
  "fresh_push f0 key =
     (let f = fresh_ensure f0 None;
          recent = fr_recent f @ [key]
      in f\<lparr>fr_recent := (if real (length recent) > fr_window f
                           then drop (length recent - nat \<lfloor>fr_window f\<rfloor>) recent else recent)\<rparr>)"

text \<open>The selection loop of \<^verbatim>\<open>pick\<close> over the rows (option, key, weight).\<close>

fun pickRow :: "('a \<times> string \<times> real) list \<Rightarrow> real \<Rightarrow> real \<Rightarrow> ('a \<times> string) option" where
  "pickRow [] r acc = None"
| "pickRow ((opt, key, w) # rest) r acc =
     (let acc' = acc + w in if r \<le> acc' then Some (opt, key) else pickRow rest r acc')"

text \<open>
  \<^verbatim>\<open>pick(rng, options, keyFn, meta, penaltyBase)\<close> with a key function; \<open>optWeight\<close> reads
  the option's \<open>weight\<close> when it is a number.
\<close>

definition fresh_pick ::
  "SeededRandom \<Rightarrow> 'a list \<Rightarrow> ('a \<Rightarrow> real option) \<Rightarrow> ('a \<Rightarrow> string) \<Rightarrow> Freshness option
     \<Rightarrow> real option \<Rightarrow> ('a \<times> string) option \<times> SeededRandom" where
  "fresh_pick rng options optWeight keyFn f penaltyBase =
     (if options = [] then (None, rng)
      else
        (let w0 = (\<lambda>opt. case optWeight opt of Some w \<Rightarrow> w | None \<Rightarrow> 1);
             weights = map (\<lambda>opt. (opt, keyFn opt,
                          applyPenalty (max 0 (w0 opt)) (fresh_count f (keyFn opt)) penaltyBase)) options;
             total = foldl (\<lambda>t row. t + snd (snd row)) 0 weights;
             plain = map (\<lambda>opt. (opt, keyFn opt, max 0 (w0 opt))) options;
             plainTotal = foldl (\<lambda>t row. t + snd (snd row)) 0 plain
         in if total \<le> 0 \<and> plainTotal \<le> 0
            then (Some (hd options, keyFn (hd options)), rng)
            else
              (let rows = (if total \<le> 0 then plain else weights);
                   tot = (if total \<le> 0 then plainTotal else total);
                   (r, rng') = rng_range 0 tot rng
               in (case pickRow rows r 0 of
                     Some res \<Rightarrow> Some res
                   | None \<Rightarrow> (let last = rows ! (length rows - 1) in Some (fst last, fst (snd last))),
                   rng'))))"

section \<open>World.js: state\<close>

text \<open>
  Spawn descriptors are objects shared between the zone's arrays, the spatial grids and
  the active entities. A reference is the descriptor's place in the current zone.
\<close>

datatype sref = EnemyRef nat | EliteRef nat | BossRef

definition derefSpawn :: "zone \<Rightarrow> sref \<Rightarrow> spawnDesc option" where
  "derefSpawn z ref =
     (case ref of
        EnemyRef i \<Rightarrow> if i < length (z_enemySpawns z) then Some (z_enemySpawns z ! i) else None
      | EliteRef i \<Rightarrow> if i < length (z_eliteSpawns z) then Some (z_eliteSpawns z ! i) else None
      | BossRef \<Rightarrow> z_bossSpawn z)"


definition spawnPos :: "zone \<Rightarrow> sref \<Rightarrow> real \<times> real" where
  "spawnPos z ref = (case derefSpawn z ref of None \<Rightarrow> (0, 0) | Some s \<Rightarrow> (sp_x s, sp_y s))"

text \<open>An entity made by the entity factory, with the fields \<^verbatim>\<open>World\<close> adds to it.\<close>

record enemy =
  e_id :: nat
  e_type :: "string option"
  e_x :: real
  e_y :: real
  e_vx :: real
  e_vy :: real
  e_speed :: real
  e_isElite :: bool
  e_isBoss :: bool
  e_dead :: bool
  e_name :: "string option"
  e_spawnRef :: "sref option"
  e_level :: "real option"
  e_patrol :: "string option"
  e_patrolRadius :: "int option"
  e_patrolOrigin :: "point option"
  e_patrolAngle :: "real option"

record Player =
  pl_x :: real
  pl_y :: real
  pl_vx :: real
  pl_vy :: real

record Meta =
  meta_worldSeed :: "real option"
  meta_runIndex :: "real option"
  meta_level :: "real option"
  meta_depth :: "depthMeta option"
  meta_freshness :: "Freshness option"

text \<open>
  The \<^verbatim>\<open>World\<close> object (fields \<open>w_\<close>) and the parts of the global \<^verbatim>\<open>State\<close> it
  reads and writes (fields \<open>s_\<close>). \<^verbatim>\<open>World.currentAct\<close> is a reference to an entry of
  \<^verbatim>\<open>State.data.acts\<close>, kept as that entry's key; \<^verbatim>\<open>State.world.currentZone\<close> is the
  same object as \<^verbatim>\<open>World.currentZone\<close>. Entities are objects in \<open>s_objects\<close>, addressed
  by their id; \<^verbatim>\<open>State.enemies\<close> and \<^verbatim>\<open>World.activeEnemies\<close> list addresses.
\<close>

record game =
  w_currentZone :: "zone option"
  w_currentAct :: "string option"
  w_zoneIndex :: int
  w_spawnRadius :: real
  w_despawnRadius :: real
  w_activeEnemies :: "nat list"
  w_enemyGrid :: "sref SpawnGrid option"
  w_eliteGrid :: "sref SpawnGrid option"
  w_rngEncounters :: "SeededRandom option"
  w_spawnedEnemyCount :: int
  w_spawnedEliteCount :: int
  w_bossSpawned :: bool
  s_acts :: "string \<Rightarrow> actConfig option"
  s_version :: "part option"
  s_freshnessCfg :: "freshnessCfg option"
  s_logZoneSummary :: bool
  s_meta :: Meta
  s_runSeed :: "real option"
  s_player :: Player
  s_enemies :: "nat list"
  s_objects :: "nat \<Rightarrow> enemy option"
  s_nextEnemyId :: nat
  s_worldZoneIndex :: "int option"
  s_worldSeed :: "u32 option"
  s_worldSeeds :: "seedBundle option"
  s_scene :: "string option"
  s_camera :: point
  s_canvas :: "(real \<times> real) option"
  s_console :: "string list"
  s_announcements :: "string list"
  s_ambient :: ambient


text \<open>Modelled from the spec: \<^verbatim>\<open>Camera.snapTo\<close> sets the camera's top-left corner.\<close>

definition Camera_snapTo :: "real \<Rightarrow> real \<Rightarrow> game \<Rightarrow> game" where
  "Camera_snapTo x y g = g\<lparr>s_camera := \<lparr>pt_x = x, pt_y = y\<rparr>\<rparr>"

section \<open>World.js: spawning and despawning\<close>






section \<open>World.js: loading zones\<close>

record macroPack =
  mp_id :: string
  mp_layout :: string
  mp_backdrop :: string
  mp_weight :: "real option"

definition layouts :: "(string \<times> real) list" where
  "layouts = [(''OPEN'', 1.0), (''CLUTTERED'', 0.9), (''CORRIDOR'', 0.7), (''ARENA'', 0.7), (''CRAMPED'', 0.5)]"

definition backdrops :: "(string \<times> real) list" where
  "backdrops = [(''A'', 1.0), (''B'', 0.9), (''C'', 0.8), (''D'', 0.7)]"

definition macroPacks :: "macroPack list" where
  "macroPacks =
     concat (map (\<lambda>l. map (\<lambda>b.
       \<lparr>mp_id = fst l @ ''|'' @ fst b, mp_layout = fst l, mp_backdrop = fst b,
        mp_weight = Some (snd l * snd b)\<rparr>) backdrops) layouts)"

text \<open>\<^verbatim>\<open>array.join(sep)\<close>\<close>

fun joinWith :: "string \<Rightarrow> string list \<Rightarrow> string" where
  "joinWith sep [] = []"
| "joinWith sep [x] = x"
| "joinWith sep (x # y # rest) = x @ sep @ joinWith sep (y # rest)"

definition zoneSeedsOf :: "u32 \<Rightarrow> seedBundle" where
  "zoneSeedsOf zoneSeed =
     \<lparr>sb_zone = zoneSeed,
      sb_macro = seedFromParts [PNum (u32num zoneSeed), PStr ''MACRO''],
      sb_meso = seedFromParts [PNum (u32num zoneSeed), PStr ''MESO''],
      sb_micro = seedFromParts [PNum (u32num zoneSeed), PStr ''MICRO''],
      sb_mods = seedFromParts [PNum (u32num zoneSeed), PStr ''MODS''],
      sb_encounters = seedFromParts [PNum (u32num zoneSeed), PStr ''ENCOUNTERS''],
      sb_loot = seedFromParts [PNum (u32num zoneSeed), PStr ''LOOT'']\<rparr>"

text \<open>Boss interval: the act's \<^verbatim>\<open>zones\<close> when it is a positive number, else 4.\<close>

definition bossInterval :: "actConfig \<Rightarrow> real" where
  "bossInterval act = (case act_zones act of Some n \<Rightarrow> if n > 0 then n else 4 | None \<Rightarrow> 4)"

text \<open>The act that \<^verbatim>\<open>World.currentAct\<close> refers to.\<close>

definition currentActConfig :: "game \<Rightarrow> actConfig option" where
  "currentActConfig g = (case w_currentAct g of None \<Rightarrow> None | Some k \<Rightarrow> s_acts g k)"

text \<open>
  \<^verbatim>\<open>loadZone(index)\<close>. Reading \<^verbatim>\<open>this.currentAct.seed\<close> throws when no act is set,
  before anything is written.
\<close>

definition loadZone :: "int \<Rightarrow> game \<Rightarrow> error + game" where
  "loadZone index g =
     (case currentActConfig g of
        None \<Rightarrow> Inl TypeError
      | Some act \<Rightarrow>
          (let depth = (of_int (index + 1) :: real);
               zoneSeed = createZoneSeed (case act_seed act of None \<Rightarrow> 0 | Some s \<Rightarrow> s) index;
               zoneSeeds = zoneSeedsOf zoneSeed;
               unlockSeed = seedFromParts
                 [case act_seed act of None \<Rightarrow> PNull | Some s \<Rightarrow> PNum (u32num s), PStr ''UNLOCK'', PNum depth]
           in case maybeUnlock depth (act_modifiers act) (Some (newRng unlockSeed)) (s_ambient g)
                     (meta_depth (s_meta g)) of
                Inl e \<Rightarrow> Inl e
              | Inr (unlockedId, meta1, rngUnlock, amb1) \<Rightarrow>
                  (let meta2 = recordDepth depth (Some meta1);
                       isBossZone = (js_rem depth (bossInterval act) = 0)
                   in case sampleActive depth (act_modifiers act) (Some (newRng (sb_mods zoneSeeds))) amb1
                             (Some meta2) of
                        Inl e \<Rightarrow> Inl e
                      | Inr (activeMods, meta3, rngMods, amb2) \<Rightarrow>
                          (let fr1 = fresh_ensure (meta_freshness (s_meta g)) (s_freshnessCfg g);
                               penaltyBase = (case s_freshnessCfg g of
                                                None \<Rightarrow> 0.25
                                              | Some c \<Rightarrow> (case fc_penaltyBase c of None \<Rightarrow> 0.25 | Some p \<Rightarrow> p));
                               biomeId = orStr (act_biome act) ''space'';
                               rngMacro = newRng (sb_macro zoneSeeds);
                               (pick, rngMacro') =
                                  fresh_pick rngMacro macroPacks mp_weight
                                    (\<lambda>pk. biomeId @ ''|'' @ mp_layout pk @ ''|'' @ mp_backdrop pk)
                                    (Some fr1) (Some penaltyBase);
                               layout = orStr (map_option (\<lambda>p. mp_layout (fst p)) pick) ''OPEN'';
                               backdrop = orStr (map_option (\<lambda>p. mp_backdrop (fst p)) pick) ''A'';
                               freshnessKey = biomeId @ ''|'' @ layout @ ''|'' @ backdrop;
                               fr2 = fresh_push (Some fr1) freshnessKey;
                               modsKey = (if activeMods \<noteq> [] then joinWith '','' (sort activeMods) else ''-'');
                               zoneSignature = freshnessKey @ ''|mods:'' @ modsKey @ ''|boss:''
                                                 @ (if isBossZone then ''1'' else ''0'');
                               options = \<lparr>opt_depth = Some depth, opt_mods = Some activeMods,
                                          opt_seeds = Some zoneSeeds, opt_layout = Some layout,
                                          opt_backdrop = Some backdrop\<rparr>;
                               zone0 = (if isBossZone then generateBossZone act zoneSeed options
                                        else generate act zoneSeed options);
                               zone = zone0\<lparr>z_depth := Some depth, z_mods := Some activeMods,
                                            z_layout := Some layout, z_backdrop := Some backdrop,
                                            z_signature := Some zoneSignature, z_seeds := Some zoneSeeds\<rparr>;
                               cellSize = max 200 (w_spawnRadius g);
                               enemyGrid = grid_build (spawnPos zone)
                                             (map (\<lambda>i. Some (EnemyRef i)) [0 ..< length (z_enemySpawns zone)])
                                             (newSpawnGrid (Some cellSize));
                               eliteGrid = grid_build (spawnPos zone)
                                             (map (\<lambda>i. Some (EliteRef i)) [0 ..< length (z_eliteSpawns zone)])
                                             (newSpawnGrid (Some cellSize));
                               px = pt_x (z_spawn zone);
                               py = pt_y (z_spawn zone);
                               screenW = orNum (map_option fst (s_canvas g)) 800;
                               screenH = orNum (map_option snd (s_canvas g)) 600;
                               mapW = orNum (Some (z_width zone)) 2000;
                               mapH = orNum (Some (z_height zone)) 2000;
                               rawX = px - screenW / 2;
                               rawY = py - screenH / 2;
                               clampedX = max 0 (min (mapW - screenW) rawX);
                               clampedY = max 0 (min (mapH - screenH) rawY);
                               g1 = g\<lparr>s_meta := (s_meta g)\<lparr>meta_depth := Some meta3, meta_freshness := Some fr2\<rparr>,
                                       s_ambient := amb2,
                                       w_currentZone := Some zone,
                                       w_rngEncounters := Some (newRng (sb_encounters zoneSeeds)),
                                       w_enemyGrid := Some enemyGrid,
                                       w_eliteGrid := Some eliteGrid,
                                       w_zoneIndex := index,
                                       w_activeEnemies := [],
                                       s_worldZoneIndex := Some index,
                                       s_worldSeed := Some zoneSeed,
                                       s_worldSeeds := Some zoneSeeds,
                                       s_player := \<lparr>pl_x = px, pl_y = py, pl_vx = 0, pl_vy = 0\<rparr>\<rparr>;
                               g2 = (Camera_snapTo clampedX clampedY g1)
                                      \<lparr>w_spawnedEnemyCount := 0, w_spawnedEliteCount := 0,
                                       w_bossSpawned := False\<rparr>
                           in Inr (if s_logZoneSummary g2
                                   then g2\<lparr>s_console := s_console g2 @ [''[ZONE] '' @ zoneSignature]\<rparr>
                                   else g2)))))"

text \<open>
  \<^verbatim>\<open>init(actId, seed)\<close>. The result is \<open>Inr\<close> of the returned flag, or \<open>Inl\<close> of the
  error the call fails with, together with the state the call leaves behind.
\<close>

definition init :: "string \<Rightarrow> real option \<Rightarrow> game \<Rightarrow> (error + bool) \<times> game" where
  "init actId seed g =
     (case s_acts g actId of
        None \<Rightarrow> (Inr False, g\<lparr>s_console := s_console g @ [''Act '' @ actId @ '' not found!'']\<rparr>)
      | Some actConfig \<Rightarrow>
          (let fallback = seedFromParts
                 [PNum (orNum (meta_worldSeed (s_meta g)) 0), PStr ''ACT'', PStr actId,
                  PNum (orNum (meta_runIndex (s_meta g)) 0),
                  (case s_version g of None \<Rightarrow> PStr ''0'' | Some v \<Rightarrow> v)];
               actSeed = (case seed of
                            Some n \<Rightarrow> toUint32 n
                          | None \<Rightarrow> (case s_runSeed g of
                                       None \<Rightarrow> fallback
                                     | Some rs \<Rightarrow> if rs = 0 then fallback else toUint32 rs));
               g1 = g\<lparr>w_currentAct := Some actId,
                       s_acts := (s_acts g)(actId \<mapsto> actConfig\<lparr>act_id := Some actId, act_seed := Some actSeed\<rparr>),
                       w_zoneIndex := 0\<rparr>
           in case loadZone 0 g1 of
                Inl e \<Rightarrow> (Inl e, g1)
              | Inr g2 \<Rightarrow> (Inr True, g2)))"

section \<open>World.js: the per-tick update\<close>
















section \<open>A small world for the scenarios\<close>

text \<open>An act with no optional section, seeded with 42, and a world that has loaded nothing.\<close>

definition plainAct :: actConfig where
  "plainAct = \<lparr>act_generation = None, act_biome = None, act_enemies = None, act_boss = None,
                act_parallax = None, act_modifiers = None, act_zones = None,
                act_id = Some ''act1'', act_seed = Some 42\<rparr>"

definition freshGame :: game where
  "freshGame =
     \<lparr>w_currentZone = None, w_currentAct = None, w_zoneIndex = 0,
      w_spawnRadius = 600, w_despawnRadius = 1200, w_activeEnemies = [],
      w_enemyGrid = None, w_eliteGrid = None, w_rngEncounters = None,
      w_spawnedEnemyCount = 0, w_spawnedEliteCount = 0, w_bossSpawned = False,
      s_acts = [''act1'' \<mapsto> plainAct], s_version = None, s_freshnessCfg = None,
      s_logZoneSummary = False,
      s_meta = \<lparr>meta_worldSeed = None, meta_runIndex = None, meta_level = None,
                meta_depth = None, meta_freshness = None\<rparr>,
      s_runSeed = None,
      s_player = \<lparr>pl_x = 0, pl_y = 0, pl_vx = 0, pl_vy = 0\<rparr>,
      s_enemies = [], s_objects = Map.empty, s_nextEnemyId = 0,
      s_worldZoneIndex = None, s_worldSeed = None, s_worldSeeds = None,
      s_scene = None, s_camera = \<lparr>pt_x = 0, pt_y = 0\<rparr>, s_canvas = None,
      s_console = [], s_announcements = [],
      s_ambient = \<lparr>amb_random = (\<lambda>n. 0), amb_calls = 0\<rparr>\<rparr>"

section \<open>Boss lifecycle: state predicates\<close>










section \<open>A boss fight, played from the start\<close>








section \<open>The generator call of a loaded zone\<close>

text \<open>The options with which the zone was generated, as \<open>loadZone\<close> records them in it.\<close>

definition recordedOptions :: "zone \<Rightarrow> genOptions" where
  "recordedOptions z =
     \<lparr>opt_depth = z_depth z, opt_mods = z_mods z, opt_seeds = z_seeds z,
      opt_layout = z_layout z, opt_backdrop = z_backdrop z\<rparr>"

text \<open>The zone signature, from the act's biome and the recorded tags.\<close>

definition signatureOf :: "actConfig \<Rightarrow> zone \<Rightarrow> string" where
  "signatureOf act z =
     orStr (act_biome act) ''space'' @ ''|'' @ orStr (z_layout z) ''OPEN'' @ ''|'' @ orStr (z_backdrop z) ''A''
       @ ''|mods:''
       @ (case z_mods z of
            None \<Rightarrow> ''-''
          | Some m \<Rightarrow> if m \<noteq> [] then joinWith '','' (sort m) else ''-'')
       @ ''|boss:'' @ (if z_isBossZone z then ''1'' else ''0'')"

text \<open>The generator's output for the inputs recorded in \<open>z\<close>, with those inputs recorded again.\<close>

definition regenerated :: "actConfig \<Rightarrow> zone \<Rightarrow> zone" where
  "regenerated act z =
     (if z_isBossZone z then generateBossZone act (z_seed z) (recordedOptions z)
      else generate act (z_seed z) (recordedOptions z))
       \<lparr>z_depth := z_depth z, z_mods := z_mods z, z_layout := z_layout z,
        z_backdrop := z_backdrop z, z_signature := Some (signatureOf act z), z_seeds := z_seeds z\<rparr>"

section \<open>Seed derivation: mixing is injective\<close>

lemma xorshift16_involution:
  "(x XOR drop_bit 16 x) XOR drop_bit 16 (x XOR drop_bit 16 x) = (x :: u32)"
  by (auto simp add: bit_eq_iff bit_simps)

lemma xorshift16_inj:
  fixes x y :: u32
  assumes "x XOR drop_bit 16 x = y XOR drop_bit 16 y"
  shows "x = y"
proof -
  have "x = (x XOR drop_bit 16 x) XOR drop_bit 16 (x XOR drop_bit 16 x)"
    by (rule xorshift16_involution [symmetric])
  also have "\<dots> = (y XOR drop_bit 16 y) XOR drop_bit 16 (y XOR drop_bit 16 y)"
    by (simp only: assms)
  also have "\<dots> = y"
    by (rule xorshift16_involution)
  finally show ?thesis .
qed

lemma xorshift13_inverse:
  "((x XOR drop_bit 13 x) XOR drop_bit 13 (x XOR drop_bit 13 x))
     XOR drop_bit 26 (x XOR drop_bit 13 x) = (x :: u32)"
  by (auto simp add: bit_eq_iff bit_simps)

lemma xorshift13_inj:
  fixes x y :: u32
  assumes "x XOR drop_bit 13 x = y XOR drop_bit 13 y"
  shows "x = y"
proof -
  let ?g = "\<lambda>z :: u32. (z XOR drop_bit 13 z) XOR drop_bit 26 z"
  have "x = ?g (x XOR drop_bit 13 x)"
    by (rule xorshift13_inverse [symmetric])
  also have "\<dots> = ?g (y XOR drop_bit 13 y)"
    by (simp only: assms)
  also have "\<dots> = y"
    by (rule xorshift13_inverse)
  finally show ?thesis .
qed

lemma mult_c1_inj:
  fixes a b :: u32
  assumes "a * 0x85ebca6b = b * 0x85ebca6b"
  shows "a = b"
proof -
  have inv: "(0x85ebca6b :: u32) * 0xa5cb9243 = 1" by simp
  have "a = a * (0x85ebca6b * 0xa5cb9243)" by (simp only: inv mult_1_right)
  also have "\<dots> = (a * 0x85ebca6b) * 0xa5cb9243" by (simp only: mult.assoc)
  also have "\<dots> = (b * 0x85ebca6b) * 0xa5cb9243" by (simp only: assms)
  also have "\<dots> = b * (0x85ebca6b * 0xa5cb9243)" by (simp only: mult.assoc)
  also have "\<dots> = b" by (simp only: inv mult_1_right)
  finally show ?thesis .
qed

lemma mult_c2_inj:
  fixes a b :: u32
  assumes "a * 0xc2b2ae35 = b * 0xc2b2ae35"
  shows "a = b"
proof -
  have inv: "(0xc2b2ae35 :: u32) * 0x7ed1b41d = 1" by simp
  have "a = a * (0xc2b2ae35 * 0x7ed1b41d)" by (simp only: inv mult_1_right)
  also have "\<dots> = (a * 0xc2b2ae35) * 0x7ed1b41d" by (simp only: mult.assoc)
  also have "\<dots> = (b * 0xc2b2ae35) * 0x7ed1b41d" by (simp only: assms)
  also have "\<dots> = b * (0xc2b2ae35 * 0x7ed1b41d)" by (simp only: mult.assoc)
  also have "\<dots> = b" by (simp only: inv mult_1_right)
  finally show ?thesis .
qed

lemma mixSeed_xor_inj:
  assumes "mixSeed a v = mixSeed b w"
  shows "a XOR v = b XOR w"
proof -
  let ?f1 = "\<lambda>x :: u32. (x XOR drop_bit 16 x) * 0x85ebca6b"
  let ?f2 = "\<lambda>x :: u32. (x XOR drop_bit 13 x) * 0xc2b2ae35"
  from assms have "?f2 (?f1 (a XOR v)) XOR drop_bit 16 (?f2 (?f1 (a XOR v)))
      = ?f2 (?f1 (b XOR w)) XOR drop_bit 16 (?f2 (?f1 (b XOR w)))"
    by (simp add: mixSeed_def Let_def)
  then have "?f2 (?f1 (a XOR v)) = ?f2 (?f1 (b XOR w))"
    by (rule xorshift16_inj)
  then have "?f1 (a XOR v) XOR drop_bit 13 (?f1 (a XOR v))
      = ?f1 (b XOR w) XOR drop_bit 13 (?f1 (b XOR w))"
    by (rule mult_c2_inj)
  then have "?f1 (a XOR v) = ?f1 (b XOR w)"
    by (rule xorshift13_inj)
  then have "(a XOR v) XOR drop_bit 16 (a XOR v) = (b XOR w) XOR drop_bit 16 (b XOR w)"
    by (rule mult_c1_inj)
  then show ?thesis
    by (rule xorshift16_inj)
qed

lemma xor_cancel_right:
  fixes a b v :: u32
  assumes "a XOR v = b XOR v"
  shows "a = b"
proof -
  have "a = (a XOR v) XOR v" by (simp add: xor.assoc)
  also have "\<dots> = (b XOR v) XOR v" by (simp only: assms)
  also have "\<dots> = b" by (simp add: xor.assoc)
  finally show ?thesis .
qed

lemma mixSeed_inj_seed: "mixSeed a v = mixSeed b v \<Longrightarrow> a = b"
  by (drule mixSeed_xor_inj) (rule xor_cancel_right)

lemma mixSeed_inj_value: "mixSeed a v = mixSeed a w \<Longrightarrow> v = w"
  by (drule mixSeed_xor_inj) (rule xor_cancel_right [of v a w], simp add: xor.commute)

lemma js_trunc_of_int [simp]: "js_trunc (of_int n) = n"
  by (simp add: js_trunc_def)

lemma toUint32_of_int: "toUint32 (of_int n) = word_of_int n"
  by (simp add: toUint32_def)

lemma itemSeed_serial_inj:
  assumes eq: "itemSeed runSeed worldSeed s1 kx ky depth = itemSeed runSeed worldSeed s2 kx ky depth"
  shows "toUint32 s1 = toUint32 s2"
proof -
  let ?s0 = "mixSeed (mixSeed 0xA5A5A5A5 (toUint32 (orNum runSeed (orNum worldSeed 0))))
               (fromString ''ITEM'')"
  let ?tail = "\<lambda>s. mixSeed (mixSeed (mixSeed s (toUint32 (of_int (toInt32 kx))))
                 (toUint32 (of_int (toInt32 ky)))) (toUint32 depth)"
  from eq have "?tail (mixSeed ?s0 (toUint32 s1)) = ?tail (mixSeed ?s0 (toUint32 s2))"
    by (simp add: itemSeed_def seedFromParts_def)
  then have "mixSeed ?s0 (toUint32 s1) = mixSeed ?s0 (toUint32 s2)"
    by (blast dest: mixSeed_inj_seed)
  then show ?thesis
    by (rule mixSeed_inj_value)
qed

text \<open>Two drops in a row, at the same place and depth, get different seeds.\<close>

lemma consecutive_drops_differ:
  assumes "run_lootSerial rn = of_int n"
      and "dropItemSeed rn worldSeed kx ky depth = (seed1, rn1)"
      and "dropItemSeed rn1 worldSeed kx ky depth = (seed2, rn2)"
  shows "seed1 \<noteq> seed2"
proof
  assume "seed1 = seed2"
  with assms have "itemSeed (run_seed rn) worldSeed (of_int n) kx ky depth
                     = itemSeed (run_seed rn) worldSeed (of_int (n + 1)) kx ky depth"
    by (auto simp add: dropItemSeed_def)
  then have "(word_of_int n :: u32) = word_of_int (n + 1)"
    by (auto dest!: itemSeed_serial_inj simp add: toUint32_of_int simp del: of_int_add)
  then have "(word_of_int n :: u32) = word_of_int n + 1" by simp
  then show False by simp
qed

text \<open>
  C7. The per-drop item seed folds (run seed, 'ITEM', serial, truncated x, truncated y,
  depth) through \<open>mixSeed\<close>; two drops whose serial counters differ modulo \<open>2 ^ 32\<close>, with
  the same run seed, position and depth, never get the same 32-bit seed.
\<close>

theorem item_seed_unique:
  assumes "n1 mod 2 ^ 32 \<noteq> (n2 :: int) mod 2 ^ 32"
  shows "itemSeed runSeed worldSeed (of_int n1) kx ky depth
           \<noteq> itemSeed runSeed worldSeed (of_int n2) kx ky depth"
proof
  assume "itemSeed runSeed worldSeed (of_int n1) kx ky depth
            = itemSeed runSeed worldSeed (of_int n2) kx ky depth"
  then have "toUint32 (of_int n1) = toUint32 (of_int n2)"
    by (rule itemSeed_serial_inj)
  then have "(word_of_int n1 :: u32) = word_of_int n2"
    by (simp only: toUint32_of_int)
  then have "n1 mod 2 ^ 32 = n2 mod 2 ^ 32"
    by (simp add: word_of_int_eq_iff take_bit_eq_mod)
  with assms show False by contradiction
qed

theorem item_seed_unique_witness:
  "(7 :: int) mod 2 ^ 32 \<noteq> 8 mod 2 ^ 32
   \<and> itemSeed (Some 42) None (of_int 7) 100.5 (-3.2) 4 \<noteq> itemSeed (Some 42) None (of_int 8) 100.5 (-3.2) 4"
proof -
  have h: "(7 :: int) mod 2 ^ 32 \<noteq> 8 mod 2 ^ 32" by simp
  show ?thesis using h item_seed_unique [OF h] by blast
qed

section \<open>Milestone unlocks\<close>

lemma weightedPick_nonempty:
  assumes "list \<noteq> []"
  shows "\<exists>p rng' amb'. weightedPick list rng amb = (Some p, rng', amb')"
proof -
  have "js_index list (int (length list) - 1) = Some (list ! (length list - 1))"
    using assms by (cases list) (auto simp: js_index_def nat_diff_distrib)
  then show ?thesis
    by (auto simp: weightedPick_def Let_def split: prod.splits option.splits)
qed

lemma milestone_pos:
  assumes "\<not> depth < UNLOCK_EVERY_DEPTH"
  shows "of_int \<lfloor>depth / UNLOCK_EVERY_DEPTH\<rfloor> * UNLOCK_EVERY_DEPTH \<ge> (25::real)"
proof -
  from assms have "1 \<le> depth / UNLOCK_EVERY_DEPTH" by (simp add: UNLOCK_EVERY_DEPTH_def)
  then have "1 \<le> \<lfloor>depth / UNLOCK_EVERY_DEPTH\<rfloor>" by linarith
  then have "(1::real) \<le> of_int \<lfloor>depth / UNLOCK_EVERY_DEPTH\<rfloor>" by linarith
  then show ?thesis by (simp add: UNLOCK_EVERY_DEPTH_def)
qed

text \<open>
  C8. Calling the milestone unlock check twice in succession at the same depth appends at
  most one modifier id in total: the first call always returns normally, and the second
  call returns \<open>null\<close> and leaves the record as the first call left it, whatever
  random source it is given.
\<close>

theorem milestone_unlock_idempotent:
  "\<exists>r1 m1 g1 a1.
     maybeUnlock depth mc rng amb meta0 = Inr (r1, m1, g1, a1)
     \<and> maybeUnlock depth mc rng2 amb2 (Some m1) = Inr (None, m1, rng2, amb2)
     \<and> (unlocked m1 = unlocked (ensureMeta meta0)
          \<or> (\<exists>i. r1 = Some i \<and> unlocked m1 = unlocked (ensureMeta meta0) @ [i]))
     \<and> length (unlocked m1) \<le> length (unlocked (ensureMeta meta0)) + 1"
proof (cases "depth < UNLOCK_EVERY_DEPTH")
  case True
  then show ?thesis
    by (simp add: maybeUnlock_def Let_def ensureMeta_def)
next
  case deep: False
  let ?meta = "ensureMeta meta0"
  let ?ms = "of_int \<lfloor>depth / UNLOCK_EVERY_DEPTH\<rfloor> * UNLOCK_EVERY_DEPTH :: real"
  have ms: "?ms \<ge> 25" using deep by (rule milestone_pos)
  show ?thesis
  proof (cases "?ms \<le> lastUnlockAt ?meta")
    case True
    with deep show ?thesis
      by (simp add: maybeUnlock_def Let_def ensureMeta_def)
  next
    case fresh: False
    let ?cand = "filter (\<lambda>m. mod_id m \<notin> set (unlocked ?meta)) (poolOf mc)"
    show ?thesis
    proof (cases "?cand = []")
      case True
      with deep fresh ms show ?thesis
        by (simp add: maybeUnlock_def Let_def ensureMeta_def)
    next
      case False
      then obtain p g a where wp: "weightedPick ?cand rng amb = (Some p, g, a)"
        using weightedPick_nonempty by blast
      with deep fresh ms False show ?thesis
        by (simp add: maybeUnlock_def Let_def ensureMeta_def)
    qed
  qed
qed

section \<open>Spatial index: queries over-approximate the circle\<close>

lemma cellSize_insert [simp]: "grid_cellSize (grid_insert pos s g) = grid_cellSize g"
  by (simp add: grid_insert_def Let_def split: prod.splits)

lemma cellSize_clear [simp]: "grid_cellSize (grid_clear g) = grid_cellSize g"
  by (simp add: grid_clear_def)

lemma cellSize_build_loop [simp]: "grid_cellSize (build_loop pos spawns g) = grid_cellSize g"
  by (induction pos spawns g rule: build_loop.induct) simp_all

lemma cellSize_applyOp [simp]: "grid_cellSize (applyOp pos g op) = grid_cellSize g"
  by (cases op) (simp_all add: grid_build_def)

lemma cellSize_new: "64 \<le> grid_cellSize (newSpawnGrid cs)"
  by (simp add: newSpawnGrid_def)

lemma cellCoord_insert [simp]: "cellCoord (grid_insert pos s g) = cellCoord g"
  by (simp add: cellCoord_def fun_eq_iff)

lemma holds_insert_same: "grid_holds pos (grid_insert pos s g) s"
  by (simp add: grid_holds_def grid_insert_def Let_def cellCoord_def)

lemma holds_insert_other:
  assumes "grid_holds pos g t"
  shows "grid_holds pos (grid_insert pos s g) t"
  using assms
  by (auto simp add: grid_holds_def grid_insert_def Let_def cellCoord_def split: option.splits)

lemma holds_build_loop_old:
  "grid_holds pos g t \<Longrightarrow> grid_holds pos (build_loop pos spawns g) t"
  by (induction pos spawns g rule: build_loop.induct) (simp_all add: holds_insert_other)

lemma holds_build_loop_new:
  "Some t \<in> set spawns \<Longrightarrow> grid_holds pos (build_loop pos spawns g) t"
proof (induction pos spawns g rule: build_loop.induct)
  case (3 pos s rest g)
  show ?case
  proof (cases "t = s")
    case True
    then show ?thesis
      by (simp add: holds_build_loop_old holds_insert_same)
  next
    case False
    with 3 show ?thesis by simp
  qed
qed simp_all

lemma set_inserted_Build:
  "t \<in> set (inserted acc (Build spawns)) \<longleftrightarrow> Some t \<in> set spawns"
  by (auto split: option.splits)

lemma holds_run:
  "t \<in> set (foldl inserted [] ops) \<Longrightarrow> grid_holds pos (foldl (applyOp pos) g ops) t"
proof (induction ops rule: rev_induct)
  case Nil
  then show ?case by simp
next
  case (snoc op ops)
  show ?case
  proof (cases op)
    case (Build spawns)
    with snoc.prems have "Some t \<in> set spawns"
      by (simp only: foldl_append foldl.simps set_inserted_Build)
    then show ?thesis
      using Build by (simp add: grid_build_def holds_build_loop_new)
  next
    case (Insert s)
    with snoc.prems have "t \<in> set (foldl inserted [] ops) \<or> t = s" by auto
    then show ?thesis
      using Insert snoc.IH by (auto simp: holds_insert_same holds_insert_other)
  next
    case Clear
    with snoc.prems show ?thesis by simp
  qed
qed

lemma cellSize_run: "grid_cellSize (foldl (applyOp pos) g ops) = grid_cellSize g"
  by (induction ops rule: rev_induct) simp_all

lemma hypot_bounds:
  assumes "hypot dx dy \<le> r"
  shows "\<bar>dx\<bar> \<le> r" and "\<bar>dy\<bar> \<le> r"
proof -
  have "\<bar>dx\<bar> = sqrt (dx * dx)" by simp
  also have "\<dots> \<le> sqrt (dx * dx + dy * dy)" by (rule real_sqrt_le_mono) simp
  finally show "\<bar>dx\<bar> \<le> r" using assms by (simp add: hypot_def)
  have "\<bar>dy\<bar> = sqrt (dy * dy)" by simp
  also have "\<dots> \<le> sqrt (dx * dx + dy * dy)" by (rule real_sqrt_le_mono) simp
  finally show "\<bar>dy\<bar> \<le> r" using assms by (simp add: hypot_def)
qed

lemma floor_div_mono:
  fixes a b :: real
  assumes "a \<le> b" and "0 < c"
  shows "\<lfloor>a / c\<rfloor> \<le> \<lfloor>b / c\<rfloor>"
  using assms by (intro floor_mono divide_right_mono) simp_all

lemma in_concat_range:
  fixes a b i :: int
  assumes "a \<le> i" and "i \<le> b" and "v \<in> set (f i)"
  shows "v \<in> set (concat (map f [a..b]))"
  using assms by auto

lemma query_covers:
  assumes held: "grid_holds pos g s"
      and size: "0 < grid_cellSize g"
      and near: "hypot (fst (pos s) - x) (snd (pos s) - y) \<le> r"
  shows "s \<in> set (grid_query g x y r)"
proof -
  let ?c = "of_int (grid_cellSize g) :: real"
  let ?sx = "fst (pos s)" and ?sy = "snd (pos s)"
  have c: "0 < ?c" using size by simp
  from hypot_bounds [OF near] have "x - r \<le> ?sx" "?sx \<le> x + r" "y - r \<le> ?sy" "?sy \<le> y + r"
    by linarith+
  then have cx: "\<lfloor>(x - r) / ?c\<rfloor> \<le> \<lfloor>?sx / ?c\<rfloor>" "\<lfloor>?sx / ?c\<rfloor> \<le> \<lfloor>(x + r) / ?c\<rfloor>"
        and cy: "\<lfloor>(y - r) / ?c\<rfloor> \<le> \<lfloor>?sy / ?c\<rfloor>" "\<lfloor>?sy / ?c\<rfloor> \<le> \<lfloor>(y + r) / ?c\<rfloor>"
    using c by (simp_all add: floor_div_mono)
  from held obtain arr where
    arr: "grid_cells g (grid_key \<lfloor>?sx / ?c\<rfloor> \<lfloor>?sy / ?c\<rfloor>) = Some arr" "s \<in> set arr"
    by (auto simp: grid_holds_def cellCoord_def split: option.splits)
  let ?cell = "\<lambda>cx cy. case grid_cells g (grid_key cx cy) of None \<Rightarrow> [] | Some a \<Rightarrow> a"
  let ?col = "\<lambda>cx. concat (map (?cell cx) [\<lfloor>(y - r) / ?c\<rfloor> .. \<lfloor>(y + r) / ?c\<rfloor>])"
  have s1: "s \<in> set (?cell \<lfloor>?sx / ?c\<rfloor> \<lfloor>?sy / ?c\<rfloor>)"
    using arr by simp
  have s2: "s \<in> set (?col \<lfloor>?sx / ?c\<rfloor>)"
    by (rule in_concat_range [where f = "?cell \<lfloor>?sx / ?c\<rfloor>", OF cy s1])
  have "s \<in> set (concat (map ?col [\<lfloor>(x - r) / ?c\<rfloor> .. \<lfloor>(x + r) / ?c\<rfloor>]))"
    by (rule in_concat_range [where f = ?col, OF cx s2])
  then show ?thesis
    by (simp add: grid_query_def Let_def cellCoord_def)
qed

text \<open>
  C6. After any history of \<open>build\<close>, \<open>insert\<close> and \<open>clear\<close> calls on a grid made by the
  constructor, \<open>query(x, y, r)\<close> returns every spawn that the history has left in the
  grid and whose Euclidean distance to \<open>(x, y)\<close> is at most \<open>r\<close>.
\<close>

theorem query_sound:
  assumes "s \<in> set (foldl inserted [] ops)"
      and "hypot (fst (pos s) - x) (snd (pos s) - y) \<le> r"
  shows "s \<in> set (grid_query (foldl (applyOp pos) (newSpawnGrid cs) ops) x y r)"
proof (rule query_covers)
  show "grid_holds pos (foldl (applyOp pos) (newSpawnGrid cs) ops) s"
    using assms(1) by (rule holds_run)
  have "64 \<le> grid_cellSize (foldl (applyOp pos) (newSpawnGrid cs) ops)"
    by (simp only: cellSize_run cellSize_new)
  then show "0 < grid_cellSize (foldl (applyOp pos) (newSpawnGrid cs) ops)" by simp
  show "hypot (fst (pos s) - x) (snd (pos s) - y) \<le> r" by (rule assms(2))
qed

theorem query_sound_witness:
  "(30 :: real, 40 :: real) \<in> set (foldl inserted [] [Build [Some (30, 40), None, Some (700, 50)], Insert (1300, 900)])
   \<and> hypot (fst (id (30 :: real, 40 :: real)) - 0) (snd (id (30 :: real, 40 :: real)) - 0) \<le> 50
   \<and> (30, 40) \<in> set (grid_query (foldl (applyOp id) (newSpawnGrid None)
         [Build [Some (30, 40), None, Some (700, 50)], Insert (1300, 900)]) 0 0 50)"
proof -
  have h1: "(30 :: real, 40 :: real) \<in> set (foldl inserted []
              [Build [Some (30, 40), None, Some (700, 50)], Insert (1300, 900)])"
    by simp
  have h2: "hypot (fst (id (30 :: real, 40 :: real)) - 0) (snd (id (30 :: real, 40 :: real)) - 0) \<le> 50"
    by (simp add: hypot_def real_le_lsqrt)
  show ?thesis
    using h1 h2 query_sound [of "(30, 40)" _ id 0 0 50 None, OF h1 h2] by blast
qed

section \<open>Rejection sampling and entity counts\<close>




lemma enemyCandidate_accepts:
  assumes "enemyCandidate pool w h spawn exit layout spawns rng = (Some s, rng')"
  shows "clearOf spawn exit s" and "list_all (\<lambda>t. apart (minDistBetween layout) t s) spawns"
  using assms
  by (auto simp add: enemyCandidate_def Let_def clearOf_def apart_def list_all_iff list_ex_iff
        split: prod.splits if_splits)

declare enemyLoop.simps [simp del]

lemma enemyLoop_attempts:
  "enemyLoop count pool w h spawn exit layout i spawns rng = (out, rng', n)
     \<Longrightarrow> int n \<le> max (int i) (count * 3)"
proof (induction count pool w h spawn exit layout i spawns rng rule: enemyLoop.induct)
  case (1 count pool w h spawn exit layout i spawns rng)
  show ?case
  proof (cases "int i < count * 3 \<and> int (length spawns) < count")
    case True
    obtain cand r1 where c: "enemyCandidate pool w h spawn exit layout spawns rng = (cand, r1)"
      by (cases "enemyCandidate pool w h spawn exit layout spawns rng")
    from "1.prems" True c
    have "enemyLoop count pool w h spawn exit layout (Suc i)
            (case cand of None \<Rightarrow> spawns | Some s \<Rightarrow> spawns @ [s]) r1 = (out, rng', n)"
      by (subst (asm) enemyLoop.simps) simp
    from "1.IH" [OF True c [symmetric] refl this] True show ?thesis by simp
  next
    case False
    with "1.prems" show ?thesis
      by (subst (asm) enemyLoop.simps) auto
  qed
qed

lemma enemyLoop_length:
  "enemyLoop count pool w h spawn exit layout i spawns rng = (out, rng', n)
     \<Longrightarrow> int (length out) \<le> max (int (length spawns)) count"
proof (induction count pool w h spawn exit layout i spawns rng rule: enemyLoop.induct)
  case (1 count pool w h spawn exit layout i spawns rng)
  show ?case
  proof (cases "int i < count * 3 \<and> int (length spawns) < count")
    case True
    obtain cand r1 where c: "enemyCandidate pool w h spawn exit layout spawns rng = (cand, r1)"
      by (cases "enemyCandidate pool w h spawn exit layout spawns rng")
    from "1.prems" True c
    have "enemyLoop count pool w h spawn exit layout (Suc i)
            (case cand of None \<Rightarrow> spawns | Some s \<Rightarrow> spawns @ [s]) r1 = (out, rng', n)"
      by (subst (asm) enemyLoop.simps) simp
    from "1.IH" [OF True c [symmetric] refl this] True show ?thesis
      by (cases cand) auto
  next
    case False
    with "1.prems" show ?thesis
      by (subst (asm) enemyLoop.simps) auto
  qed
qed

lemma enemyLoop_placed:
  "enemyLoop count pool w h spawn exit layout i spawns rng = (out, rng', n)
     \<Longrightarrow> list_all (clearOf spawn exit) spawns
     \<Longrightarrow> sorted_wrt (apart (minDistBetween layout)) spawns
     \<Longrightarrow> list_all (clearOf spawn exit) out \<and> sorted_wrt (apart (minDistBetween layout)) out"
proof (induction count pool w h spawn exit layout i spawns rng rule: enemyLoop.induct)
  case (1 count pool w h spawn exit layout i spawns rng)
  show ?case
  proof (cases "int i < count * 3 \<and> int (length spawns) < count")
    case True
    obtain cand r1 where c: "enemyCandidate pool w h spawn exit layout spawns rng = (cand, r1)"
      by (cases "enemyCandidate pool w h spawn exit layout spawns rng")
    let ?next = "case cand of None \<Rightarrow> spawns | Some s \<Rightarrow> spawns @ [s]"
    from "1.prems"(1) True c
    have run: "enemyLoop count pool w h spawn exit layout (Suc i) ?next r1 = (out, rng', n)"
      by (subst (asm) enemyLoop.simps) simp
    have "list_all (clearOf spawn exit) ?next \<and> sorted_wrt (apart (minDistBetween layout)) ?next"
    proof (cases cand)
      case None
      with "1.prems" show ?thesis by simp
    next
      case (Some s)
      with c have "clearOf spawn exit s" "list_all (\<lambda>t. apart (minDistBetween layout) t s) spawns"
        by (auto dest: enemyCandidate_accepts)
      with "1.prems" Some show ?thesis
        by (simp add: sorted_wrt_append list_all_iff)
    qed
    with "1.IH" [OF True c [symmetric] refl run] show ?thesis by simp
  next
    case False
    with "1.prems" show ?thesis
      by (subst (asm) enemyLoop.simps) auto
  qed
qed

text \<open>
  C5. Enemy spawn placement by rejection sampling returns after at most \<open>3 * target\<close>
  candidate attempts, \<open>target = floor (w * h * density)\<close>, with at most \<open>target\<close> accepted
  points; every accepted point is at least 300 from the zone spawn point, at least 200
  from the exit, and at least the layout's minimum separation from every point accepted
  before it. The loop function is total, so the call always returns.
\<close>

theorem enemy_placement_bounded:
  assumes "generateEnemySpawnsCounted rng pool density w h spawn exit layoutOpt = (spawns, rng', attempts)"
  shows "int attempts \<le> max 0 (3 * \<lfloor>w * h * density\<rfloor>)
         \<and> int (length spawns) \<le> max 0 \<lfloor>w * h * density\<rfloor>
         \<and> list_all (clearOf spawn exit) spawns
         \<and> sorted_wrt (apart (minDistBetween (orStr layoutOpt ''OPEN''))) spawns
         \<and> generateEnemySpawns rng pool density w h spawn exit layoutOpt = (spawns, rng')"
proof -
  let ?count = "\<lfloor>w * h * density\<rfloor>"
  let ?layout = "orStr layoutOpt ''OPEN''"
  from assms have run: "enemyLoop ?count pool w h spawn exit ?layout 0 [] rng = (spawns, rng', attempts)"
    by (simp add: generateEnemySpawnsCounted_def Let_def)
  from enemyLoop_attempts [OF run] have "int attempts \<le> max 0 (3 * ?count)"
    by (simp add: mult.commute)
  moreover from enemyLoop_length [OF run] have "int (length spawns) \<le> max 0 ?count"
    by simp
  moreover from enemyLoop_placed [OF run]
  have "list_all (clearOf spawn exit) spawns \<and> sorted_wrt (apart (minDistBetween ?layout)) spawns"
    by simp
  moreover from assms have "generateEnemySpawns rng pool density w h spawn exit layoutOpt = (spawns, rng')"
    by (simp add: generateEnemySpawns_def)
  ultimately show ?thesis by blast
qed












lemma hypot_less_iff: "0 \<le> d \<Longrightarrow> hypot dx dy < d \<longleftrightarrow> dx * dx + dy * dy < d * d"
proof -
  assume d: "0 \<le> d"
  have "sqrt (dx * dx + dy * dy) < d \<longleftrightarrow> sqrt (dx * dx + dy * dy) < sqrt (d * d)"
    using d by simp
  also have "\<dots> \<longleftrightarrow> dx * dx + dy * dy < d * d"
    by (rule real_sqrt_less_iff)
  finally show ?thesis by (simp add: hypot_def)
qed

lemmas rng_eval = rng_range_def rng_int_def rng_pick_def rng_chance_def rng_next_def newRng_def
  js_index_def Let_def

theorem enemy_placement_bounded_witness:
  "generateEnemySpawnsCounted (newRng 42) [''grunt''] 0.0000025 1000 1000
       \<lparr>pt_x = 100, pt_y = 900\<rparr> \<lparr>pt_x = 900, pt_y = 100\<rparr> None
     = ([\<lparr>sp_x = 19491199175 / 33554432, sp_y = 30778302525 / 67108864,
          sp_type = Some ''grunt'', sp_patrol = Some ''line'',
          sp_patrolRadius = Some 67, sp_active = False, sp_killed = False, sp_enemyId = None\<rparr>,
         \<lparr>sp_x = 80503219225 / 134217728, sp_y = 53175702775 / 67108864,
          sp_type = Some ''grunt'', sp_patrol = Some ''static'',
          sp_patrolRadius = Some 139, sp_active = False, sp_killed = False, sp_enemyId = None\<rparr>],
        \<lparr>rng_seed = 42, rng_state = 503953318\<rparr>, 3)
   \<and> int 3 \<le> max 0 (3 * \<lfloor>1000 * 1000 * (0.0000025 :: real)\<rfloor>)
   \<and> int (length [\<lparr>sp_x = 19491199175 / 33554432, sp_y = 30778302525 / 67108864,
          sp_type = Some ''grunt'', sp_patrol = Some ''line'',
          sp_patrolRadius = Some 67, sp_active = False, sp_killed = False, sp_enemyId = None\<rparr>,
         \<lparr>sp_x = 80503219225 / 134217728, sp_y = 53175702775 / 67108864,
          sp_type = Some ''grunt'', sp_patrol = Some ''static'',
          sp_patrolRadius = Some 139, sp_active = False, sp_killed = False, sp_enemyId = None\<rparr>])
       \<le> max 0 \<lfloor>1000 * 1000 * (0.0000025 :: real)\<rfloor>
   \<and> apart (minDistBetween (orStr None ''OPEN''))
         \<lparr>sp_x = 19491199175 / 33554432, sp_y = 30778302525 / 67108864,
          sp_type = Some ''grunt'', sp_patrol = Some ''line'',
          sp_patrolRadius = Some 67, sp_active = False, sp_killed = False, sp_enemyId = None\<rparr>
         \<lparr>sp_x = 80503219225 / 134217728, sp_y = 53175702775 / 67108864,
          sp_type = Some ''grunt'', sp_patrol = Some ''static'',
          sp_patrolRadius = Some 139, sp_active = False, sp_killed = False, sp_enemyId = None\<rparr>"
proof -
  have run: "generateEnemySpawnsCounted (newRng 42) [''grunt''] 0.0000025 1000 1000
       \<lparr>pt_x = 100, pt_y = 900\<rparr> \<lparr>pt_x = 900, pt_y = 100\<rparr> None
     = ([\<lparr>sp_x = 19491199175 / 33554432, sp_y = 30778302525 / 67108864,
          sp_type = Some ''grunt'', sp_patrol = Some ''line'',
          sp_patrolRadius = Some 67, sp_active = False, sp_killed = False, sp_enemyId = None\<rparr>,
         \<lparr>sp_x = 80503219225 / 134217728, sp_y = 53175702775 / 67108864,
          sp_type = Some ''grunt'', sp_patrol = Some ''static'',
          sp_patrolRadius = Some 139, sp_active = False, sp_killed = False, sp_enemyId = None\<rparr>],
        \<lparr>rng_seed = 42, rng_state = 503953318\<rparr>, 3)"
    by (simp add: generateEnemySpawnsCounted_def enemyLoop.simps enemyCandidate_def rng_eval
          orStr_def minDistBetween_def hypot_less_iff)
  from enemy_placement_bounded [OF run] run show ?thesis
    by simp
qed

section \<open>Seeded sampling does not touch the ambient source\<close>

text \<open>With a seeded stream the ambient source is neither read nor advanced.\<close>

lemma weightedPick_seeded:
  "\<exists>p r'. \<forall>amb. weightedPick list (Some rng) amb = (p, Some r', amb)"
  by (simp add: weightedPick_def nextOrRandom_def Let_def split_beta)

lemma weightedPick_seeded_nonempty:
  assumes "list \<noteq> []"
  shows "\<exists>p r'. \<forall>amb. weightedPick list (Some rng) amb = (Some p, Some r', amb)"
proof -
  from weightedPick_seeded obtain p r' where
    a: "\<forall>amb. weightedPick list (Some rng) amb = (p, Some r', amb)" by blast
  from weightedPick_nonempty [OF assms] obtain q g x where
    "weightedPick list (Some rng) undefined = (Some q, g, x)" by blast
  with a have "p = Some q" by simp
  with a show ?thesis by blast
qed

lemma maybeUnlock_seeded:
  "\<exists>u m r. \<forall>amb. maybeUnlock depth mc (Some rng) amb meta0 = Inr (u, m, r, amb)"
proof -
  let ?cand = "filter (\<lambda>m. mod_id m \<notin> set (unlocked (ensureMeta meta0))) (poolOf mc)"
  let ?ms = "of_int \<lfloor>depth / UNLOCK_EVERY_DEPTH\<rfloor> * UNLOCK_EVERY_DEPTH :: real"
  consider (shallow) "depth < UNLOCK_EVERY_DEPTH"
    | (covered) "\<not> depth < UNLOCK_EVERY_DEPTH" "?ms \<le> lastUnlockAt (ensureMeta meta0)"
    | (exhausted) "\<not> depth < UNLOCK_EVERY_DEPTH" "\<not> ?ms \<le> lastUnlockAt (ensureMeta meta0)" "?cand = []"
    | (pick) "\<not> depth < UNLOCK_EVERY_DEPTH" "\<not> ?ms \<le> lastUnlockAt (ensureMeta meta0)" "?cand \<noteq> []"
    by blast
  then show ?thesis
  proof cases
    case shallow
    then show ?thesis by (simp add: maybeUnlock_def Let_def)
  next
    case covered
    then show ?thesis by (simp add: maybeUnlock_def Let_def)
  next
    case exhausted
    then show ?thesis by (simp add: maybeUnlock_def Let_def)
  next
    case pick
    from weightedPick_seeded_nonempty [OF pick(3)] obtain p r' where
      "\<forall>amb. weightedPick ?cand (Some rng) amb = (Some p, Some r', amb)" by blast
    with pick show ?thesis by (simp add: maybeUnlock_def Let_def)
  qed
qed

lemma sampleLoop_seeded:
  "\<exists>picked r. \<forall>amb. sampleLoop k available acc (Some rng) amb = Inr (picked, r, amb)"
proof (induction k arbitrary: acc rng)
  case 0
  then show ?case by simp
next
  case (Suc k)
  let ?cand = "filter (\<lambda>m. mod_id m \<notin> set acc) available"
  show ?case
  proof (cases "?cand = []")
    case True
    then show ?thesis by simp
  next
    case False
    from weightedPick_seeded_nonempty [OF this] obtain p r' where
      wp: "\<forall>amb. weightedPick ?cand (Some rng) amb = (Some p, Some r', amb)" by blast
    from Suc.IH [of "acc @ [mod_id p]" r'] obtain picked r where
      "\<forall>amb. sampleLoop k available (acc @ [mod_id p]) (Some r') amb = Inr (picked, r, amb)" by blast
    with False wp show ?thesis by simp
  qed
qed

lemma sampleActive_seeded:
  "\<exists>mods m r. \<forall>amb. sampleActive depth mc (Some rng) amb meta0 = Inr (mods, m, r, amb)"
proof -
  let ?avail = "filter (\<lambda>m. mod_id m \<in> set (unlocked (ensureMeta meta0))
                      \<union> set (case mc of None \<Rightarrow> [''ELITE_PACKS'']
                                | Some c \<Rightarrow> (case mods_baseline c of None \<Rightarrow> [''ELITE_PACKS''] | Some b \<Rightarrow> b)))
               (poolOf mc)"
  show ?thesis
  proof (cases "?avail = []")
    case True
    then show ?thesis by (simp add: sampleActive_def Let_def)
  next
    case False
    from sampleLoop_seeded obtain picked r where
      "\<forall>amb. sampleLoop (nat \<lceil>clamp (modifierSlots depth) 0 8\<rceil>) ?avail [] (Some rng) amb
          = Inr (picked, r, amb)"
      by blast
    with False show ?thesis
      by (simp add: sampleActive_def Let_def)
  qed
qed

section \<open>Initialisation and zone loading\<close>

text \<open>
  C9. When the act configuration for the requested act id is absent, \<open>init\<close> reports the
  error, returns \<open>false\<close> without throwing, and leaves the state as it was except for the
  reported line: current act, current zone, zone index and player position are unchanged.
\<close>

theorem init_missing_act:
  assumes "s_acts g actId = None"
  shows "init actId seed g
           = (Inr False, g\<lparr>s_console := s_console g @ [''Act '' @ actId @ '' not found!'']\<rparr>)
         \<and> w_currentAct (snd (init actId seed g)) = w_currentAct g
         \<and> w_currentZone (snd (init actId seed g)) = w_currentZone g
         \<and> w_zoneIndex (snd (init actId seed g)) = w_zoneIndex g
         \<and> s_player (snd (init actId seed g)) = s_player g"
  using assms by (simp add: init_def)

theorem init_missing_act_witness:
  "s_acts freshGame ''act7'' = None
   \<and> init ''act7'' (Some 5) freshGame
       = (Inr False, freshGame\<lparr>s_console := s_console freshGame @ [''Act '' @ ''act7'' @ '' not found!'']\<rparr>)
   \<and> w_currentAct (snd (init ''act7'' (Some 5) freshGame)) = w_currentAct freshGame
   \<and> w_currentZone (snd (init ''act7'' (Some 5) freshGame)) = w_currentZone freshGame
   \<and> w_zoneIndex (snd (init ''act7'' (Some 5) freshGame)) = w_zoneIndex freshGame
   \<and> s_player (snd (init ''act7'' (Some 5) freshGame)) = s_player freshGame"
proof -
  have h: "s_acts freshGame ''act7'' = None" by (simp add: freshGame_def)
  from init_missing_act [OF h] h show ?thesis by blast
qed

lemma generate_shape:
  "z_isBossZone (generate a s opts) = False"
  "z_bossSpawn (generate a s opts) = None"
  "z_exit (generate a s opts) \<noteq> None"
  "z_portals (generate a s opts) = []"
  by (simp_all add: generate_def Let_def split_beta)

lemma generateBossZone_shape:
  "z_isBossZone (generateBossZone a s opts) = True"
  "\<exists>b. z_bossSpawn (generateBossZone a s opts) = Some b"
  "z_enemySpawns (generateBossZone a s opts) = []"
  "z_eliteSpawns (generateBossZone a s opts) = []"
  "z_exit (generateBossZone a s opts) = None"
  "z_portals (generateBossZone a s opts) = []"
  by (simp_all add: generateBossZone_def Let_def split_beta)




lemma generate_seed [simp]:
  "z_seed (generate a s opts) = s" "z_seed (generateBossZone a s opts) = s"
  by (simp_all add: generate_def generateBossZone_def Let_def split_beta)

lemma orStr_idem [simp]: "orStr (Some (orStr a d)) d = orStr a d"
  by (simp add: orStr_def split: option.splits)

text \<open>What \<open>loadZone\<close> stores as the current zone, in full.\<close>

lemma loadZone_zone_explicit:
  assumes "currentActConfig g = Some act"
  shows "\<exists>g' zs mods layout backdrop.
           loadZone index g = Inr g'
           \<and> w_currentZone g' =
               Some ((if js_rem (of_int (index + 1)) (bossInterval act) = 0
                      then generateBossZone act zs
                             \<lparr>opt_depth = Some (of_int (index + 1)), opt_mods = Some mods,
                              opt_seeds = Some (zoneSeedsOf zs),
                              opt_layout = Some (orStr layout ''OPEN''),
                              opt_backdrop = Some (orStr backdrop ''A'')\<rparr>
                      else generate act zs
                             \<lparr>opt_depth = Some (of_int (index + 1)), opt_mods = Some mods,
                              opt_seeds = Some (zoneSeedsOf zs),
                              opt_layout = Some (orStr layout ''OPEN''),
                              opt_backdrop = Some (orStr backdrop ''A'')\<rparr>)
                    \<lparr>z_depth := Some (of_int (index + 1)), z_mods := Some mods,
                     z_layout := Some (orStr layout ''OPEN''),
                     z_backdrop := Some (orStr backdrop ''A''),
                     z_signature :=
                       Some (orStr (act_biome act) ''space'' @ ''|'' @ orStr layout ''OPEN'' @ ''|''
                             @ orStr backdrop ''A'' @ ''|mods:''
                             @ (if mods \<noteq> [] then joinWith '','' (sort mods) else ''-'')
                             @ ''|boss:''
                             @ (if js_rem (of_int (index + 1)) (bossInterval act) = 0 then ''1'' else ''0'')),
                     z_seeds := Some (zoneSeedsOf zs)\<rparr>)"
proof -
  let ?depth = "of_int (index + 1) :: real"
  let ?zs = "createZoneSeed (case act_seed act of None \<Rightarrow> 0 | Some s \<Rightarrow> s) index"
  let ?unlockSeed = "seedFromParts
      [case act_seed act of None \<Rightarrow> PNull | Some s \<Rightarrow> PNum (u32num s), PStr ''UNLOCK'', PNum ?depth]"
  from maybeUnlock_seeded obtain u m1 r1 where
    mu: "\<forall>amb. maybeUnlock ?depth (act_modifiers act) (Some (newRng ?unlockSeed)) amb
           (meta_depth (s_meta g)) = Inr (u, m1, r1, amb)"
    by blast
  from sampleActive_seeded obtain mods m3 r2 where
    sa: "\<forall>amb. sampleActive ?depth (act_modifiers act) (Some (newRng (sb_mods (zoneSeedsOf ?zs)))) amb
           (Some (recordDepth ?depth (Some m1))) = Inr (mods, m3, r2, amb)"
    by blast
  show ?thesis
    using assms mu sa
    by (simp add: loadZone_def Let_def split_beta Camera_snapTo_def) blast
qed

lemma loadZone_generated:
  assumes "currentActConfig g = Some act" and "loadZone index g = Inr g'"
      and "w_currentZone g' = Some z"
  shows "z = regenerated act z"
proof -
  from loadZone_zone_explicit [OF assms(1), of index] assms(2,3)
  obtain zs mods layout backdrop where
    z: "z = (if js_rem (of_int (index + 1)) (bossInterval act) = 0
                      then generateBossZone act zs
                             \<lparr>opt_depth = Some (of_int (index + 1)), opt_mods = Some mods,
                              opt_seeds = Some (zoneSeedsOf zs),
                              opt_layout = Some (orStr layout ''OPEN''),
                              opt_backdrop = Some (orStr backdrop ''A'')\<rparr>
                      else generate act zs
                             \<lparr>opt_depth = Some (of_int (index + 1)), opt_mods = Some mods,
                              opt_seeds = Some (zoneSeedsOf zs),
                              opt_layout = Some (orStr layout ''OPEN''),
                              opt_backdrop = Some (orStr backdrop ''A'')\<rparr>)
                    \<lparr>z_depth := Some (of_int (index + 1)), z_mods := Some mods,
                     z_layout := Some (orStr layout ''OPEN''),
                     z_backdrop := Some (orStr backdrop ''A''),
                     z_signature :=
                       Some (orStr (act_biome act) ''space'' @ ''|'' @ orStr layout ''OPEN'' @ ''|''
                             @ orStr backdrop ''A'' @ ''|mods:''
                             @ (if mods \<noteq> [] then joinWith '','' (sort mods) else ''-'')
                             @ ''|boss:''
                             @ (if js_rem (of_int (index + 1)) (bossInterval act) = 0 then ''1'' else ''0'')),
                     z_seeds := Some (zoneSeedsOf zs)\<rparr>"
    by auto
  show ?thesis
  proof (cases "js_rem (of_int (index + 1)) (bossInterval act) = 0")
    case True
    then show ?thesis
      by (subst (2) z, subst z)
         (simp add: regenerated_def recordedOptions_def signatureOf_def generateBossZone_shape)
  next
    case False
    then show ?thesis
      by (subst (2) z, subst z)
         (simp add: regenerated_def recordedOptions_def signatureOf_def generate_shape)
  qed
qed

text \<open>
  Two loads, in any two world states and at any two indices, whose generator calls have
  the same inputs store the same zone.
\<close>

lemma generated_zones_agree:
  assumes "currentActConfig g1 = Some act" and "loadZone i1 g1 = Inr g1'" and "w_currentZone g1' = Some z1"
      and "currentActConfig g2 = Some act" and "loadZone i2 g2 = Inr g2'" and "w_currentZone g2' = Some z2"
      and "z_isBossZone z1 = z_isBossZone z2" and "z_seed z1 = z_seed z2"
      and "z_depth z1 = z_depth z2" and "z_mods z1 = z_mods z2" and "z_seeds z1 = z_seeds z2"
      and "z_layout z1 = z_layout z2" and "z_backdrop z1 = z_backdrop z2"
  shows "z1 = z2"
proof -
  have "z1 = regenerated act z1" using assms(1-3) by (rule loadZone_generated)
  also have "\<dots> = regenerated act z2"
    using assms(7-13) by (simp add: regenerated_def recordedOptions_def signatureOf_def)
  also have "\<dots> = z2" using assms(4-6) by (rule loadZone_generated [symmetric])
  finally show ?thesis .
qed



section \<open>Boss lifecycle\<close>
































section \<open>A boss fight, step by step\<close>
















end
